theory Spec2Isabelle
  imports Main
begin

section \<open>JavaScript string primitives used by the database service\<close>

text \<open>
  Strings are lists of characters. The whitespace class is the one of
  \<open>String.prototype.trim\<close> and of the regular expression class \<open>\s\<close>, restricted to the
  characters a \<^typ>\<open>char\<close> can hold: tab, line feed, vertical tab, form feed, carriage
  return, space and no-break space.
\<close>

definition is_ws :: "char \<Rightarrow> bool" where
  "is_ws c = (of_char c \<in> {9::nat, 10, 11, 12, 13, 32, 160})"

definition js_trim :: "string \<Rightarrow> string" where
  "js_trim s = rev (dropWhile is_ws (rev (dropWhile is_ws s)))"

definition is_digit :: "char \<Rightarrow> bool" where
  "is_digit c = (c \<in> set ''0123456789'')"

definition digit_val :: "char \<Rightarrow> nat" where
  "digit_val c = of_char c - 48"

text \<open>\<open>s.split(c)\<close> for a one-character separator: the empty string gives one empty piece.\<close>

fun js_split :: "char \<Rightarrow> string \<Rightarrow> string list" where
  "js_split c [] = [[]]"
| "js_split c (x # xs) =
     (if x = c then [] # js_split c xs
      else (case js_split c xs of
              [] \<Rightarrow> [[x]]
            | w # ws \<Rightarrow> (x # w) # ws))"

text \<open>
  \<open>parseInt(s, 10)\<close> on a string without sign or leading blanks: the longest prefix of
  digits is read; with no digit the result is \<open>NaN\<close>, here \<open>None\<close>.
\<close>

definition parseInt10 :: "string \<Rightarrow> nat option" where
  "parseInt10 s =
     (let ds = takeWhile is_digit s
      in if ds = [] then None
         else Some (foldl (\<lambda>n c. 10 * n + digit_val c) 0 ds))"

definition padStart2 :: "string \<Rightarrow> string" where
  "padStart2 s = replicate (2 - length s) (CHR ''0'') @ s"

section \<open>Dates (database.js, lines 505-544)\<close>

text \<open>The regular expression \<open>/^\d{2}\.\d{2}\.\d{4}$/\<close> of \<open>parseDate\<close>.\<close>

definition dateRegex :: "string \<Rightarrow> bool" where
  "dateRegex s =
     (case s of
        [d1, d2, p, m1, m2, q, y1, y2, y3, y4] \<Rightarrow>
          is_digit d1 \<and> is_digit d2 \<and> p = CHR ''.'' \<and> is_digit m1 \<and> is_digit m2 \<and>
          q = CHR ''.'' \<and> is_digit y1 \<and> is_digit y2 \<and> is_digit y3 \<and> is_digit y4
      | _ \<Rightarrow> False)"

text \<open>
  \<open>parseDate\<close> turns \<open>dd.mm.yyyy\<close> into \<open>yyyy-mm-dd\<close>; \<open>null\<close> is \<open>None\<close>. A comparison
  with \<open>NaN\<close> is false in JavaScript, so a component that \<open>parseInt\<close> cannot read would
  pass the range test (the regular expression excludes that case).
\<close>

definition parseDate :: "string \<Rightarrow> string option" where
  "parseDate dateStr =
     (if dateStr = [] then None
      else let trimmed = js_trim dateStr
           in if \<not> dateRegex trimmed then None
              else (case js_split (CHR ''.'') trimmed of
                      day # month # year # _ \<Rightarrow>
                        (let out_of_range =
                               (case (parseInt10 day, parseInt10 month, parseInt10 year) of
                                  (Some dayNum, Some monthNum, Some yearNum) \<Rightarrow>
                                     dayNum < 1 \<or> dayNum > 31 \<or> monthNum < 1 \<or> monthNum > 12 \<or>
                                     yearNum < 1900 \<or> yearNum > 2100
                                | _ \<Rightarrow> False)
                         in if out_of_range then None
                            else Some (year @ ''-'' @ padStart2 month @ ''-'' @ padStart2 day))
                    | _ \<Rightarrow> None))"

text \<open>
  \<open>formatDateForDisplay\<close> destructures \<open>dateStr.split('-')\<close>; a missing piece is
  \<open>undefined\<close> and is printed as such by the template string.
\<close>

definition piece :: "string list \<Rightarrow> nat \<Rightarrow> string" where
  "piece ws i = (if i < length ws then ws ! i else ''undefined'')"

definition formatDateForDisplay :: "string \<Rightarrow> string" where
  "formatDateForDisplay dateStr =
     (if dateStr = [] then []
      else let ws = js_split (CHR ''-'') dateStr
           in piece ws 2 @ ''.'' @ piece ws 1 @ ''.'' @ piece ws 0)"

text \<open>
  \<open>validateDateRange\<close> builds two \<open>Date\<close> objects and compares them. What
  \<open>new Date(s)\<close> makes of a text is the runtime's business, so it is the parameter
  \<open>newDate\<close>: the time value of the date, or \<open>None\<close> for \<open>Invalid Date\<close>, whose
  comparisons are false. A missing bound (\<open>null\<close> or the empty text, both falsy) passes.
\<close>

definition validateDateRange ::
  "(string \<Rightarrow> int option) \<Rightarrow> string option \<Rightarrow> string option \<Rightarrow> bool" where
  "validateDateRange newDate startDate endDate =
     (case (startDate, endDate) of
        (Some s, Some e) \<Rightarrow>
          (if s = [] \<or> e = [] then True
           else (case (newDate s, newDate e) of
                   (Some start, Some end') \<Rightarrow> start \<le> end'
                 | _ \<Rightarrow> False))
      | _ \<Rightarrow> True)"

section \<open>The backing store\<close>

text \<open>
  Identifiers are opaque and assigned by the store. A row carries the columns the
  service and the handlers read or write. \<open>view_users\<close> is the view of \<open>profiles\<close> with
  the name, e-mail and activity columns.
\<close>

type_synonym ident = nat

record project_row =
  project_id :: ident
  project_name :: string
  project_description :: "string option"

record stage_row =
  stage_id :: ident
  stage_name :: string
  stage_project_id :: ident

record object_row =
  object_id :: ident
  object_name :: string
  object_description :: "string option"
  object_stage_id :: ident
  object_project_id :: ident
  object_responsible :: "ident option"
  object_start_date :: "string option"
  object_end_date :: "string option"

record section_row =
  section_id :: ident
  section_name :: string
  section_description :: "string option"
  section_object_id :: ident
  section_project_id :: ident
  section_type :: "string option"
  section_responsible :: "ident option"
  section_start_date :: "string option"
  section_end_date :: "string option"

record user_row =
  user_id :: ident
  first_name :: string
  last_name :: string
  full_name :: string
  email :: string
  is_active :: bool

text \<open>
  The store holds the tables, the next identifier it will assign, its evaluation of an
  \<open>or\<close> filter text on a row of \<open>view_users\<close> and of \<open>ilike\<close> on a pattern and a text, and
  the calls that currently fail: \<open>faults\<close> maps the name of a service call to the error
  message the store answers with.
\<close>

record store =
  projects :: "project_row list"
  stages :: "stage_row list"
  objects :: "object_row list"
  sections :: "section_row list"
  profiles :: "user_row list"
  next_id :: ident
  or_filter :: "string \<Rightarrow> user_row \<Rightarrow> bool"
  ilike :: "string \<Rightarrow> string \<Rightarrow> bool"
  faults :: "(string \<times> string) list"

text \<open>The pair \<open>{ data, error }\<close> a query resolves to.\<close>

datatype 'a response = Error string | Data 'a

definition respond :: "store \<Rightarrow> string \<Rightarrow> 'a \<Rightarrow> 'a response" where
  "respond db call rows =
     (case map_of (faults db) call of
        Some e \<Rightarrow> Error e
      | None \<Rightarrow> Data rows)"

text \<open>\<open>.single()\<close>: anything but exactly one row is an error.\<close>

definition single :: "'a list response \<Rightarrow> 'a response" where
  "single r =
     (case r of
        Error e \<Rightarrow> Error e
      | Data rows \<Rightarrow>
          (case rows of
             [] \<Rightarrow> Error ''PGRST116''
           | x # rest \<Rightarrow> (if rest = [] then Data x else Error ''PGRST116'')))"

definition no_faults :: "store \<Rightarrow> bool" where
  "no_faults db = (faults db = [])"

definition same_tables :: "store \<Rightarrow> store \<Rightarrow> bool" where
  "same_tables db db' =
     (projects db' = projects db \<and> stages db' = stages db \<and> objects db' = objects db \<and>
      sections db' = sections db \<and> profiles db' = profiles db)"

section \<open>Existence checks (database.js, lines 42-73 and 1001-1008)\<close>

definition validateProjectExists :: "store \<Rightarrow> ident \<Rightarrow> bool" where
  "validateProjectExists db projectId =
     (case single (respond db ''validateProjectExists''
                     (filter (\<lambda>p. project_id p = projectId) (projects db))) of
        Error _ \<Rightarrow> False
      | Data _ \<Rightarrow> True)"

definition validateStageExists :: "store \<Rightarrow> ident \<Rightarrow> bool" where
  "validateStageExists db stageId =
     (case single (respond db ''validateStageExists''
                     (filter (\<lambda>s. stage_id s = stageId) (stages db))) of
        Error _ \<Rightarrow> False
      | Data _ \<Rightarrow> True)"

definition validateObjectExists :: "store \<Rightarrow> ident \<Rightarrow> bool" where
  "validateObjectExists db objectId =
     (case single (respond db ''validateObjectExists''
                     (filter (\<lambda>ob. object_id ob = objectId) (objects db))) of
        Error _ \<Rightarrow> False
      | Data _ \<Rightarrow> True)"

definition validateUserExists :: "store \<Rightarrow> ident \<Rightarrow> bool" where
  "validateUserExists db userId =
     (case single (respond db ''validateUserExists''
                     (filter (\<lambda>u. user_id u = userId) (profiles db))) of
        Error _ \<Rightarrow> False
      | Data _ \<Rightarrow> True)"

definition validateSectionExists :: "store \<Rightarrow> ident \<Rightarrow> bool" where
  "validateSectionExists db sectionId =
     (case single (respond db ''validateSectionExists''
                     (filter (\<lambda>s. section_id s = sectionId) (sections db))) of
        Error _ \<Rightarrow> False
      | Data _ \<Rightarrow> True)"

section \<open>Resolution of names (database.js, lines 405-448)\<close>

text \<open>
  The outcome of a \<open>validateUnique...ByName\<close> call: the text \<open>'not_found'\<close>, the text
  \<open>'multiple_found'\<close>, or the one row.
\<close>

datatype 'a lookup = NotFound | MultipleFound | Found 'a

definition classify :: "'a list response \<Rightarrow> 'a lookup" where
  "classify r =
     (case r of
        Error _ \<Rightarrow> NotFound
      | Data rows \<Rightarrow>
          (case rows of
             [] \<Rightarrow> NotFound
           | x # rest \<Rightarrow> (if rest = [] then Found x else MultipleFound)))"

definition validateUniqueProjectByName :: "store \<Rightarrow> string \<Rightarrow> project_row lookup" where
  "validateUniqueProjectByName db name =
     classify (respond db ''validateUniqueProjectByName''
                 (filter (\<lambda>p. project_name p = name) (projects db)))"

definition validateUniqueStageByName :: "store \<Rightarrow> string \<Rightarrow> ident \<Rightarrow> stage_row lookup" where
  "validateUniqueStageByName db name projectId =
     classify (respond db ''validateUniqueStageByName''
                 (filter (\<lambda>s. stage_name s = name \<and> stage_project_id s = projectId) (stages db)))"

text \<open>The stage filter is added only when a stage identifier is passed.\<close>

definition validateUniqueObjectByName :: "store \<Rightarrow> string \<Rightarrow> ident option \<Rightarrow> object_row lookup" where
  "validateUniqueObjectByName db name stageId =
     classify (respond db ''validateUniqueObjectByName''
                 (filter (\<lambda>ob. object_name ob = name \<and>
                                (case stageId of None \<Rightarrow> True | Some sid \<Rightarrow> object_stage_id ob = sid))
                    (objects db)))"

section \<open>Person search (database.js, lines 449-494)\<close>

text \<open>\<open>s.replace(/[%_\\]/g, '\\$&')\<close>: a backslash is put before each of the three characters.\<close>

definition is_meta :: "char \<Rightarrow> bool" where
  "is_meta c = (c = CHR ''%'' \<or> c = CHR ''_'' \<or> c = CHR 0x5C)"

definition escapeLike :: "string \<Rightarrow> string" where
  "escapeLike s = concat (map (\<lambda>c. if is_meta c then [CHR 0x5C, c] else [c]) s)"

text \<open>\<open>s.split(/\s+/)\<close>: each run of whitespace separates two pieces.\<close>

fun split_ws :: "string \<Rightarrow> string list" where
  "split_ws [] = [[]]"
| "split_ws (x # xs) =
     (if is_ws x
      then (case xs of
              [] \<Rightarrow> [] # split_ws xs
            | y # _ \<Rightarrow> (if is_ws y then split_ws xs else [] # split_ws xs))
      else (case split_ws xs of
              [] \<Rightarrow> [[x]]
            | w # ws \<Rightarrow> (x # w) # ws))"

fun js_join :: "string \<Rightarrow> string list \<Rightarrow> string" where
  "js_join sep [] = []"
| "js_join sep [w] = w"
| "js_join sep (w # ws) = w @ sep @ js_join sep ws"

definition ilike_clause :: "string \<Rightarrow> string \<Rightarrow> string" where
  "ilike_clause field pat = field @ ''.ilike.%'' @ pat @ ''%''"

definition pair_clause :: "string \<Rightarrow> string \<Rightarrow> string" where
  "pair_clause a b =
     ''and('' @ ilike_clause ''first_name'' a @ '','' @ ilike_clause ''last_name'' b @ '')''"

text \<open>The array \<open>searchTerms\<close> built from the escaped query (lines 467-486).\<close>

definition searchTerms :: "string \<Rightarrow> string list" where
  "searchTerms cleanQuery =
     [ilike_clause ''first_name'' cleanQuery, ilike_clause ''last_name'' cleanQuery,
      ilike_clause ''full_name'' cleanQuery, ilike_clause ''email'' cleanQuery] @
     (if CHR '' '' \<in> set cleanQuery
      then (case split_ws cleanQuery of
              w0 # w1 # _ \<Rightarrow>
                (let firstName = escapeLike w0; lastName = escapeLike w1
                 in [pair_clause firstName lastName, pair_clause lastName firstName])
            | _ \<Rightarrow> [])
      else [])"

definition searchUsersByQuery :: "store \<Rightarrow> string \<Rightarrow> user_row list" where
  "searchUsersByQuery db query =
     (let cleanQuery = escapeLike (js_trim query)
      in if cleanQuery = []
         then (case respond db ''searchUsersByQuery''
                      (take 50 (filter is_active (profiles db))) of
                 Error _ \<Rightarrow> []
               | Data rows \<Rightarrow> rows)
         else if length cleanQuery > 50 then []
         else (case respond db ''searchUsersByQuery''
                      (take 50 (filter (\<lambda>u. is_active u \<and>
                                            or_filter db (js_join '','' (searchTerms cleanQuery)) u)
                                  (profiles db))) of
                 Error _ \<Rightarrow> []
               | Data rows \<Rightarrow> rows))"

section \<open>Exact lookups for updates (database.js, lines 546-590)\<close>

definition orNull :: "'a response \<Rightarrow> 'a option" where
  "orNull r = (case r of Error _ \<Rightarrow> None | Data x \<Rightarrow> Some x)"

definition findProjectByNameExact :: "store \<Rightarrow> string \<Rightarrow> project_row option" where
  "findProjectByNameExact db name =
     (let cleanName = js_trim name
      in orNull (single (respond db ''findProjectByNameExact''
                           (filter (\<lambda>p. project_name p = cleanName) (projects db)))))"

definition findStageByNameExact :: "store \<Rightarrow> string \<Rightarrow> ident \<Rightarrow> stage_row option" where
  "findStageByNameExact db name projectId =
     (let cleanName = js_trim name
      in orNull (single (respond db ''findStageByNameExact''
                           (filter (\<lambda>s. stage_name s = cleanName \<and> stage_project_id s = projectId)
                              (stages db)))))"

definition findObjectByNameExact :: "store \<Rightarrow> string \<Rightarrow> ident \<Rightarrow> ident option \<Rightarrow> object_row option" where
  "findObjectByNameExact db name projectId stageId =
     (let cleanName = js_trim name
      in orNull (single (respond db ''findObjectByNameExact''
                           (filter (\<lambda>ob. object_name ob = cleanName \<and> object_project_id ob = projectId \<and>
                                          (case stageId of None \<Rightarrow> True
                                           | Some sid \<Rightarrow> object_stage_id ob = sid))
                              (objects db)))))"

definition findSectionByNameExact :: "store \<Rightarrow> string \<Rightarrow> ident \<Rightarrow> ident option \<Rightarrow> section_row option" where
  "findSectionByNameExact db name projectId objectId =
     (let cleanName = js_trim name
      in orNull (single (respond db ''findSectionByNameExact''
                           (filter (\<lambda>s. section_name s = cleanName \<and> section_project_id s = projectId \<and>
                                         (case objectId of None \<Rightarrow> True
                                          | Some oid \<Rightarrow> section_object_id s = oid))
                              (sections db)))))"

section \<open>Uniqueness checks for renames (database.js, lines 592-638)\<close>

datatype uniqueness = Unique | Duplicate

definition unique_or_duplicate :: "'a list response \<Rightarrow> uniqueness" where
  "unique_or_duplicate r =
     (case r of
        Error _ \<Rightarrow> Unique
      | Data rows \<Rightarrow> (if length rows > 0 then Duplicate else Unique))"

definition validateUniqueProjectByNameForUpdate :: "store \<Rightarrow> string \<Rightarrow> ident \<Rightarrow> uniqueness" where
  "validateUniqueProjectByNameForUpdate db name excludeId =
     (let cleanName = js_trim name
      in unique_or_duplicate
           (respond db ''validateUniqueProjectByNameForUpdate''
              (filter (\<lambda>p. project_name p = cleanName \<and> project_id p \<noteq> excludeId) (projects db))))"

definition validateUniqueStageByNameForUpdate :: "store \<Rightarrow> string \<Rightarrow> ident \<Rightarrow> ident \<Rightarrow> uniqueness" where
  "validateUniqueStageByNameForUpdate db name projectId excludeId =
     (let cleanName = js_trim name
      in unique_or_duplicate
           (respond db ''validateUniqueStageByNameForUpdate''
              (filter (\<lambda>s. stage_name s = cleanName \<and> stage_project_id s = projectId \<and>
                            stage_id s \<noteq> excludeId) (stages db))))"

definition validateUniqueObjectByNameForUpdate :: "store \<Rightarrow> string \<Rightarrow> ident \<Rightarrow> ident \<Rightarrow> uniqueness" where
  "validateUniqueObjectByNameForUpdate db name stageId excludeId =
     (let cleanName = js_trim name
      in unique_or_duplicate
           (respond db ''validateUniqueObjectByNameForUpdate''
              (filter (\<lambda>ob. object_name ob = cleanName \<and> object_stage_id ob = stageId \<and>
                             object_id ob \<noteq> excludeId) (objects db))))"

definition validateUniqueSectionByNameForUpdate :: "store \<Rightarrow> string \<Rightarrow> ident \<Rightarrow> ident \<Rightarrow> uniqueness" where
  "validateUniqueSectionByNameForUpdate db name objectId excludeId =
     (let cleanName = js_trim name
      in unique_or_duplicate
           (respond db ''validateUniqueSectionByNameForUpdate''
              (filter (\<lambda>s. section_name s = cleanName \<and> section_object_id s = objectId \<and>
                            section_id s \<noteq> excludeId) (sections db))))"

section \<open>Searches by part of a name (database.js, lines 686-715)\<close>

text \<open>
  \<open>.ilike(column, '%' + name + '%')\<close> with a limit of ten rows; a failed query gives the
  empty list.
\<close>

definition searchProjectsByName :: "store \<Rightarrow> string \<Rightarrow> project_row list" where
  "searchProjectsByName db name =
     (case respond db ''searchProjectsByName''
             (take 10 (filter (\<lambda>p. ilike db (''%'' @ name @ ''%'') (project_name p)) (projects db))) of
        Error _ \<Rightarrow> []
      | Data rows \<Rightarrow> rows)"

definition searchObjectsByName :: "store \<Rightarrow> string \<Rightarrow> ident option \<Rightarrow> object_row list" where
  "searchObjectsByName db name stageId =
     (case respond db ''searchObjectsByName''
             (take 10 (filter (\<lambda>ob. ilike db (''%'' @ name @ ''%'') (object_name ob) \<and>
                                      (case stageId of None \<Rightarrow> True
                                       | Some sid \<Rightarrow> object_stage_id ob = sid))
                         (objects db))) of
        Error _ \<Rightarrow> []
      | Data rows \<Rightarrow> rows)"

section \<open>Messages of the database service\<close>

text \<open>
  Each constructor stands for one message template of database.js (the texts are
  Russian); its arguments are the values the template interpolates.
  \<^item> \<open>ProjectNotFound\<close>: the project to delete does not exist (line 152);
  \<^item> \<open>ProjectHasLinkedData n\<close>: deletion refused, \<open>n\<close> linked records found, use the
    cascade (line 159);
  \<^item> \<open>ProjectDeleteError e\<close>, \<open>ProjectDeleted\<close>, \<open>ProjectDeletedCascade n\<close> (lines 174-180);
  \<^item> \<open>GivenProjectNotFound\<close>, \<open>GivenStageNotFound\<close>, \<open>GivenObjectNotFound\<close>,
    \<open>GivenResponsibleNotFound\<close>: a referenced identifier has no row;
  \<^item> \<open>ObjectNotFound\<close>, \<open>SectionNotFound\<close>, \<open>StageNotFound\<close>: the row to update does not
    exist;
  \<^item> the remaining ones report the outcome of an insert or an update, with the store's
    error message where there is one.
\<close>

datatype dbmsg =
    ProjectNotFound
  | ProjectHasLinkedData nat
  | ProjectDeleteError string
  | ProjectDeleted
  | ProjectDeletedCascade nat
  | GivenProjectNotFound
  | GivenStageNotFound
  | GivenObjectNotFound
  | GivenResponsibleNotFound
  | ObjectCreateError string
  | ObjectCreated
  | ObjectNotFound
  | ObjectUpdateError string
  | ObjectUpdated
  | SectionCreateError string
  | SectionCreated
  | SectionNotFound
  | SectionUpdateError string
  | SectionUpdated
  | StageNotFound
  | StageUpdateError string
  | StageUpdated

text \<open>The object \<open>{ success, message, data }\<close> a service operation returns.\<close>

datatype 'a result = Result (success: bool) (message: dbmsg) (data: "'a option")

section \<open>Cascade information and project deletion (database.js, lines 148-187, 364-379)\<close>

record cascade_info =
  ci_sections :: nat
  ci_objects :: nat
  ci_stages :: nat
  ci_total :: nat

text \<open>\<open>result.data?.length || 0\<close>: a failed query counts as no rows.\<close>

definition count_rows :: "'a list response \<Rightarrow> nat" where
  "count_rows r = (case r of Error _ \<Rightarrow> 0 | Data rows \<Rightarrow> length rows)"

definition getCascadeDeleteInfo :: "store \<Rightarrow> ident \<Rightarrow> cascade_info" where
  "getCascadeDeleteInfo db projectId =
     (let sectionsResult = respond db ''getCascadeDeleteInfo.sections''
                             (filter (\<lambda>s. section_project_id s = projectId) (sections db));
          objectsResult = respond db ''getCascadeDeleteInfo.objects''
                            (filter (\<lambda>ob. object_project_id ob = projectId) (objects db));
          stagesResult = respond db ''getCascadeDeleteInfo.stages''
                           (filter (\<lambda>s. stage_project_id s = projectId) (stages db));
          n_sections = count_rows sectionsResult;
          n_objects = count_rows objectsResult;
          n_stages = count_rows stagesResult
      in \<lparr> ci_sections = n_sections, ci_objects = n_objects, ci_stages = n_stages,
           ci_total = n_sections + n_objects + n_stages \<rparr>)"

text \<open>A delete whose call fails removes nothing.\<close>

definition failing :: "store \<Rightarrow> string \<Rightarrow> bool" where
  "failing db call = (map_of (faults db) call \<noteq> None)"

definition cascade_delete :: "store \<Rightarrow> ident \<Rightarrow> store" where
  "cascade_delete db projectId =
     (let db1 = (if failing db ''deleteProject.sections'' then db
                 else db\<lparr>sections := filter (\<lambda>s. section_project_id s \<noteq> projectId) (sections db)\<rparr>);
          db2 = (if failing db1 ''deleteProject.objects'' then db1
                 else db1\<lparr>objects := filter (\<lambda>ob. object_project_id ob \<noteq> projectId) (objects db1)\<rparr>);
          db3 = (if failing db2 ''deleteProject.stages'' then db2
                 else db2\<lparr>stages := filter (\<lambda>s. stage_project_id s \<noteq> projectId) (stages db2)\<rparr>)
      in db3)"

definition deleteProject :: "store \<Rightarrow> ident \<Rightarrow> bool \<Rightarrow> cascade_info result \<times> store" where
  "deleteProject db projectId cascade =
     (if \<not> validateProjectExists db projectId
      then (Result False ProjectNotFound None, db)
      else let cascadeInfo = getCascadeDeleteInfo db projectId
           in if ci_total cascadeInfo > 0 \<and> \<not> cascade
              then (Result False (ProjectHasLinkedData (ci_total cascadeInfo)) (Some cascadeInfo), db)
              else let db' = (if cascade then cascade_delete db projectId else db)
                   in (case map_of (faults db') ''deleteProject.projects'' of
                         Some e \<Rightarrow> (Result False (ProjectDeleteError e) None, db')
                       | None \<Rightarrow>
                           (Result True
                              (if cascade then ProjectDeletedCascade (ci_total cascadeInfo)
                               else ProjectDeleted)
                              (Some cascadeInfo),
                            db'\<lparr>projects := filter (\<lambda>p. project_id p \<noteq> projectId) (projects db')\<rparr>)))"

section \<open>Stages (database.js, lines 267-292)\<close>

text \<open>
  \<open>updateStage\<close> can give a stage another project; the objects and sections below the
  stage keep the project they carry.
\<close>

record stage_update =
  upd_stage_id :: ident
  upd_stage_name :: "string option"
  upd_stage_project_id :: "ident option"

definition apply_stage_update :: "stage_update \<Rightarrow> stage_row \<Rightarrow> stage_row" where
  "apply_stage_update u s =
     s\<lparr>stage_name := (case upd_stage_name u of None \<Rightarrow> stage_name s | Some n \<Rightarrow> n),
       stage_project_id := (case upd_stage_project_id u of None \<Rightarrow> stage_project_id s
                            | Some pid \<Rightarrow> pid)\<rparr>"

definition updateStage :: "store \<Rightarrow> stage_update \<Rightarrow> stage_row result \<times> store" where
  "updateStage db input =
     (if \<not> validateStageExists db (upd_stage_id input)
      then (Result False StageNotFound None, db)
      else if (case upd_stage_project_id input of None \<Rightarrow> False
               | Some pid \<Rightarrow> \<not> validateProjectExists db pid)
      then (Result False GivenProjectNotFound None, db)
      else (case single (respond db ''updateStage''
                           (map (apply_stage_update input)
                              (filter (\<lambda>s. stage_id s = upd_stage_id input) (stages db)))) of
              Error e \<Rightarrow> (Result False (StageUpdateError e) None, db)
            | Data row \<Rightarrow>
                (Result True StageUpdated (Some row),
                 db\<lparr>stages := map (\<lambda>s. if stage_id s = upd_stage_id input
                                         then apply_stage_update input s else s)
                                 (stages db)\<rparr>)))"

section \<open>Objects (database.js, lines 757-818)\<close>

text \<open>
  An insert ignores the identifier of the row it is given: the store assigns the next
  one. The row comes back through \<open>.select().single()\<close>.
\<close>

definition createObject :: "store \<Rightarrow> object_row \<Rightarrow> object_row result \<times> store" where
  "createObject db input =
     (if \<not> validateProjectExists db (object_project_id input)
      then (Result False GivenProjectNotFound None, db)
      else if \<not> validateStageExists db (object_stage_id input)
      then (Result False GivenStageNotFound None, db)
      else if (case object_responsible input of None \<Rightarrow> False
               | Some uid \<Rightarrow> \<not> validateUserExists db uid)
      then (Result False GivenResponsibleNotFound None, db)
      else (case map_of (faults db) ''createObject'' of
              Some e \<Rightarrow> (Result False (ObjectCreateError e) None, db)
            | None \<Rightarrow>
                (let row = input\<lparr>object_id := next_id db\<rparr>
                 in (Result True ObjectCreated (Some row),
                     db\<lparr>objects := objects db @ [row], next_id := Suc (next_id db)\<rparr>))))"

text \<open>
  The fields of an update: a field that is \<open>undefined\<close> (\<open>None\<close>) is not sent and keeps
  its stored value.
\<close>

record object_update =
  upd_object_id :: ident
  upd_object_name :: "string option"
  upd_object_description :: "string option"
  upd_object_stage_id :: "ident option"
  upd_object_project_id :: "ident option"
  upd_object_responsible :: "ident option"
  upd_object_start_date :: "string option"
  upd_object_end_date :: "string option"

definition or_else :: "'a option \<Rightarrow> 'a \<Rightarrow> 'a" where
  "or_else new old = (case new of None \<Rightarrow> old | Some v \<Rightarrow> v)"

definition or_keep :: "'a option \<Rightarrow> 'a option \<Rightarrow> 'a option" where
  "or_keep new old = (case new of None \<Rightarrow> old | Some v \<Rightarrow> Some v)"

definition apply_object_update :: "object_update \<Rightarrow> object_row \<Rightarrow> object_row" where
  "apply_object_update u ob =
     ob\<lparr>object_name := or_else (upd_object_name u) (object_name ob),
        object_description := or_keep (upd_object_description u) (object_description ob),
        object_stage_id := or_else (upd_object_stage_id u) (object_stage_id ob),
        object_project_id := or_else (upd_object_project_id u) (object_project_id ob),
        object_responsible := or_keep (upd_object_responsible u) (object_responsible ob),
        object_start_date := or_keep (upd_object_start_date u) (object_start_date ob),
        object_end_date := or_keep (upd_object_end_date u) (object_end_date ob)\<rparr>"

text \<open>
  The update statement changes the rows with the given identifier; \<open>.select().single()\<close>
  turns anything but one changed row into an error, and the statement then has no effect.
\<close>

definition updateObject :: "store \<Rightarrow> object_update \<Rightarrow> object_row result \<times> store" where
  "updateObject db input =
     (if \<not> validateObjectExists db (upd_object_id input)
      then (Result False ObjectNotFound None, db)
      else if (case upd_object_project_id input of None \<Rightarrow> False
               | Some pid \<Rightarrow> \<not> validateProjectExists db pid)
      then (Result False GivenProjectNotFound None, db)
      else if (case upd_object_stage_id input of None \<Rightarrow> False
               | Some sid \<Rightarrow> \<not> validateStageExists db sid)
      then (Result False GivenStageNotFound None, db)
      else if (case upd_object_responsible input of None \<Rightarrow> False
               | Some uid \<Rightarrow> \<not> validateUserExists db uid)
      then (Result False GivenResponsibleNotFound None, db)
      else (case single (respond db ''updateObject''
                           (map (apply_object_update input)
                              (filter (\<lambda>ob. object_id ob = upd_object_id input) (objects db)))) of
              Error e \<Rightarrow> (Result False (ObjectUpdateError e) None, db)
            | Data row \<Rightarrow>
                (Result True ObjectUpdated (Some row),
                 db\<lparr>objects := map (\<lambda>ob. if object_id ob = upd_object_id input
                                          then apply_object_update input ob else ob)
                                  (objects db)\<rparr>)))"

section \<open>Sections (database.js, lines 882-943)\<close>

definition createSection :: "store \<Rightarrow> section_row \<Rightarrow> section_row result \<times> store" where
  "createSection db input =
     (if \<not> validateProjectExists db (section_project_id input)
      then (Result False GivenProjectNotFound None, db)
      else if \<not> validateObjectExists db (section_object_id input)
      then (Result False GivenObjectNotFound None, db)
      else if (case section_responsible input of None \<Rightarrow> False
               | Some uid \<Rightarrow> \<not> validateUserExists db uid)
      then (Result False GivenResponsibleNotFound None, db)
      else (case map_of (faults db) ''createSection'' of
              Some e \<Rightarrow> (Result False (SectionCreateError e) None, db)
            | None \<Rightarrow>
                (let row = input\<lparr>section_id := next_id db\<rparr>
                 in (Result True SectionCreated (Some row),
                     db\<lparr>sections := sections db @ [row], next_id := Suc (next_id db)\<rparr>))))"

record section_update =
  upd_section_id :: ident
  upd_section_name :: "string option"
  upd_section_description :: "string option"
  upd_section_object_id :: "ident option"
  upd_section_project_id :: "ident option"
  upd_section_type :: "string option"
  upd_section_responsible :: "ident option"
  upd_section_start_date :: "string option"
  upd_section_end_date :: "string option"

definition apply_section_update :: "section_update \<Rightarrow> section_row \<Rightarrow> section_row" where
  "apply_section_update u s =
     s\<lparr>section_name := or_else (upd_section_name u) (section_name s),
       section_description := or_keep (upd_section_description u) (section_description s),
       section_object_id := or_else (upd_section_object_id u) (section_object_id s),
       section_project_id := or_else (upd_section_project_id u) (section_project_id s),
       section_type := or_keep (upd_section_type u) (section_type s),
       section_responsible := or_keep (upd_section_responsible u) (section_responsible s),
       section_start_date := or_keep (upd_section_start_date u) (section_start_date s),
       section_end_date := or_keep (upd_section_end_date u) (section_end_date s)\<rparr>"

definition updateSection :: "store \<Rightarrow> section_update \<Rightarrow> section_row result \<times> store" where
  "updateSection db input =
     (if \<not> validateSectionExists db (upd_section_id input)
      then (Result False SectionNotFound None, db)
      else if (case upd_section_project_id input of None \<Rightarrow> False
               | Some pid \<Rightarrow> \<not> validateProjectExists db pid)
      then (Result False GivenProjectNotFound None, db)
      else if (case upd_section_object_id input of None \<Rightarrow> False
               | Some oid \<Rightarrow> \<not> validateObjectExists db oid)
      then (Result False GivenObjectNotFound None, db)
      else if (case upd_section_responsible input of None \<Rightarrow> False
               | Some uid \<Rightarrow> \<not> validateUserExists db uid)
      then (Result False GivenResponsibleNotFound None, db)
      else (case single (respond db ''updateSection''
                           (map (apply_section_update input)
                              (filter (\<lambda>s. section_id s = upd_section_id input) (sections db)))) of
              Error e \<Rightarrow> (Result False (SectionUpdateError e) None, db)
            | Data row \<Rightarrow>
                (Result True SectionUpdated (Some row),
                 db\<lparr>sections := map (\<lambda>s. if section_id s = upd_section_id input
                                          then apply_section_update input s else s)
                                   (sections db)\<rparr>)))"

section \<open>Tool arguments and replies\<close>

text \<open>
  The argument object of a tool call: every property is a text or absent, but for the
  two numbers \<open>limit\<close> and \<open>offset\<close>. \<open>String(x)\<close> of an absent property is the text
  \<open>undefined\<close>; a text property is truthy when it is present and not empty, a number
  when it is present and not zero.
\<close>

record args =
  arg_project_name :: "string option"
  arg_stage_name :: "string option"
  arg_object_name :: "string option"
  arg_section_name :: "string option"
  arg_current_name :: "string option"
  arg_new_name :: "string option"
  arg_new_stage_name :: "string option"
  arg_description :: "string option"
  arg_object_description :: "string option"
  arg_section_description :: "string option"
  arg_section_type :: "string option"
  arg_type :: "string option"
  arg_responsible_name :: "string option"
  arg_start_date :: "string option"
  arg_end_date :: "string option"
  arg_limit :: "nat option"
  arg_offset :: "nat option"

definition String :: "string option \<Rightarrow> string" where
  "String x = (case x of None \<Rightarrow> ''undefined'' | Some s \<Rightarrow> s)"

definition truthy :: "string option \<Rightarrow> bool" where
  "truthy x = (case x of None \<Rightarrow> False | Some s \<Rightarrow> s \<noteq> [])"

text \<open>\<open>a || b\<close> on texts that may be absent.\<close>

definition js_or :: "string option \<Rightarrow> string option \<Rightarrow> string option" where
  "js_or a b = (if truthy a then a else b)"

text \<open>\<open>String(x).trim() || undefined\<close>.\<close>

definition trimmed_or_undefined :: "string option \<Rightarrow> string option" where
  "trimmed_or_undefined x =
     (let t = js_trim (String x) in if t = [] then None else Some t)"

text \<open>An entry of the list of changes an update reports.\<close>

datatype change =
    NameChange string string
  | DescriptionChange
  | StageChange
  | ResponsibleChange
  | TypeChange "string option"
  | StartDateChange string
  | EndDateChange string

text \<open>
  The text a handler answers with. Each constructor stands for one template of the
  handlers (the texts are Russian); its arguments are the values the template
  interpolates, in the template's order.
  \<^item> \<open>ProjectNameNotFound n\<close>: no project named \<open>n\<close>;
  \<^item> \<open>SeveralProjectsUseSearch n\<close>: several projects named \<open>n\<close>, refine the name or use the
    project search (objects.js, line 64); \<open>SeveralProjects n\<close>: the same without the hint
    (line 244);
  \<^item> \<open>StageNameNotFoundIn s p\<close>, \<open>SeveralStagesIn p s\<close>: stage \<open>s\<close> in project \<open>p\<close>
    (lines 75, 83); \<open>StageNotFoundInGivenProject s\<close>, \<open>SeveralStagesInProject s\<close>,
    \<open>StageNeedsProject\<close>: the search handler's texts (lines 256-273);
  \<^item> \<open>SeveralObjectsInStage s n\<close>, \<open>ObjectExistsInStage s n\<close>: the name \<open>n\<close> is taken in
    stage \<open>s\<close> (lines 95, 103);
  \<^item> \<open>ObjectNameNotFound n\<close>, \<open>SeveralObjectsUseSearch n\<close>: the section handler's object
    lookup (part_002, lines 857, 865);
  \<^item> \<open>BadStartDate d\<close>, \<open>BadEndDate d\<close>: the date is not in the form dd.mm.yyyy;
    \<open>InvertedRange\<close>: the start date cannot be later than the end date;
  \<^item> \<open>UserNotFound q\<close>; \<open>SeveralUsersOrEmail q lines\<close> and \<open>SeveralUsers q lines\<close>: several
    people match \<open>q\<close>, followed by one line per person holding a display name and the
    e-mail address;
  \<^item> \<open>ObjectNotFoundIn n p\<close>, \<open>SectionNotFoundIn n p\<close>: nothing named \<open>n\<close> in project \<open>p\<close>;
  \<^item> \<open>ObjectDuplicateInStage n\<close>, \<open>SectionDuplicateInObject n\<close>: the new name \<open>n\<close> already
    exists in the stage or object;
  \<^item> \<open>ServiceMessage m\<close>: the message of the service as it is; \<open>ObjectCreatedIn\<close> and
    \<open>SectionCreatedIn\<close>: that message and the success line;
  \<^item> \<open>ObjectUpdateFailed m\<close>, \<open>SectionUpdateFailed m\<close>; \<open>ObjectUpdatedReport\<close> and
    \<open>SectionUpdatedReport\<close> with the list of changes.
\<close>

datatype reply =
    ProjectNameNotFound string
  | SeveralProjectsUseSearch string
  | SeveralProjects string
  | StageNameNotFoundIn string string
  | SeveralStagesIn string string
  | StageNeedsProject
  | StageNotFoundInGivenProject string
  | SeveralStagesInProject string
  | SeveralObjectsInStage string string
  | ObjectExistsInStage string string
  | ObjectNameNotFound string
  | SeveralObjectsUseSearch string
  | BadStartDate string
  | BadEndDate string
  | InvertedRange
  | UserNotFound string
  | SeveralUsersOrEmail string "(string \<times> string) list"
  | SeveralUsers string "(string \<times> string) list"
  | ObjectNotFoundIn string string
  | SectionNotFoundIn string string
  | ObjectDuplicateInStage string
  | SectionDuplicateInObject string
  | ServiceMessage dbmsg
  | ObjectCreatedIn dbmsg string string string
  | SectionCreatedIn dbmsg string string
  | ObjectUpdateFailed dbmsg
  | SectionUpdateFailed dbmsg
  | ObjectUpdatedReport string string "change list"
  | SectionUpdatedReport string string "change list"

text \<open>The candidate lines a reply enumerates.\<close>

fun listed_candidates :: "reply \<Rightarrow> (string \<times> string) list" where
  "listed_candidates (SeveralUsersOrEmail q ls) = ls"
| "listed_candidates (SeveralUsers q ls) = ls"
| "listed_candidates _ = []"

text \<open>
  The two ways a person is shown in a list: \<open>u.full_name.trim() || (first + ' ' + last).trim()\<close>
  with the address, and \<open>u.full_name\<close> with the address.
\<close>

definition display_name :: "user_row \<Rightarrow> string" where
  "display_name u =
     (if js_trim (full_name u) \<noteq> [] then js_trim (full_name u)
      else js_trim (first_name u @ '' '' @ last_name u))"

definition user_line :: "user_row \<Rightarrow> string \<times> string" where
  "user_line u = (display_name u, email u)"

definition user_line_plain :: "user_row \<Rightarrow> string \<times> string" where
  "user_line_plain u = (full_name u, email u)"

section \<open>Object tools (objects.js)\<close>

text \<open>
  The handlers catch exceptions and answer with a generic error text. The model raises
  none: a failing store call is an error value of the query, as in the client library.
\<close>

text \<open>
  \<open>handleCreateObject\<close>, lines 108-178: what follows once the project and the stage are
  resolved and the name is free in the stage.
\<close>

definition createObject_resolved ::
  "(string \<Rightarrow> int option) \<Rightarrow> store \<Rightarrow> args \<Rightarrow> project_row \<Rightarrow> stage_row \<Rightarrow> string \<Rightarrow> reply \<times> store" where
  "createObject_resolved newDate db args project stage objectName =
     (let start = (if truthy (arg_start_date args)
                   then parseDate (String (arg_start_date args)) else None)
      in if truthy (arg_start_date args) \<and> start = None
         then (BadStartDate (String (arg_start_date args)), db)
         else
     (let end' = (if truthy (arg_end_date args)
                  then parseDate (String (arg_end_date args)) else None)
      in if truthy (arg_end_date args) \<and> end' = None
         then (BadEndDate (String (arg_end_date args)), db)
         else if \<not> validateDateRange newDate start end'
         then (InvertedRange, db)
         else
     (let users = (if truthy (arg_responsible_name args)
                   then searchUsersByQuery db (js_trim (String (arg_responsible_name args)))
                   else [])
      in if truthy (arg_responsible_name args) \<and> length users = 0
         then (UserNotFound (String (arg_responsible_name args)), db)
         else if truthy (arg_responsible_name args) \<and> length users > 1
         then (SeveralUsersOrEmail (String (arg_responsible_name args)) (map user_line users), db)
         else
     (let input = \<lparr> object_id = 0,
                    object_name = objectName,
                    object_description = (if truthy (arg_object_description args)
                                          then Some (String (arg_object_description args))
                                          else None),
                    object_stage_id = stage_id stage,
                    object_project_id = project_id project,
                    object_responsible = (case users of [] \<Rightarrow> None | u # _ \<Rightarrow> Some (user_id u)),
                    object_start_date = start,
                    object_end_date = end' \<rparr>
      in (case createObject db input of
            (result, db') \<Rightarrow>
              (if success result
               then ObjectCreatedIn (message result) objectName (stage_name stage) (project_name project)
               else ServiceMessage (message result),
               db'))))))"

text \<open>\<open>handleCreateObject\<close>, lines 45-107, continued by the part above.\<close>

definition handleCreateObject :: "(string \<Rightarrow> int option) \<Rightarrow> store \<Rightarrow> args \<Rightarrow> reply \<times> store" where
  "handleCreateObject newDate db args =
     (let objectName = js_trim (String (arg_object_name args));
          stageName = js_trim (String (arg_stage_name args));
          projectName = js_trim (String (arg_project_name args))
      in case validateUniqueProjectByName db projectName of
           NotFound \<Rightarrow> (ProjectNameNotFound projectName, db)
         | MultipleFound \<Rightarrow> (SeveralProjectsUseSearch projectName, db)
         | Found project \<Rightarrow>
             (case validateUniqueStageByName db stageName (project_id project) of
                NotFound \<Rightarrow> (StageNameNotFoundIn stageName (project_name project), db)
              | MultipleFound \<Rightarrow> (SeveralStagesIn (project_name project) stageName, db)
              | Found stage \<Rightarrow>
                  (case validateUniqueObjectByName db objectName (Some (stage_id stage)) of
                     MultipleFound \<Rightarrow> (SeveralObjectsInStage (stage_name stage) objectName, db)
                   | Found _ \<Rightarrow> (ObjectExistsInStage (stage_name stage) objectName, db)
                   | NotFound \<Rightarrow> createObject_resolved newDate db args project stage objectName)))"

text \<open>
  \<open>handleSearchObjects\<close>, lines 227-278: the resolution of the project and stage
  filters, which yields an answer or the two optional identifiers.
\<close>

definition handleSearchObjects_resolve :: "store \<Rightarrow> args \<Rightarrow> reply + (ident option \<times> ident option)" where
  "handleSearchObjects_resolve db args =
     (let projectResult = (if truthy (arg_project_name args)
                           then Some (validateUniqueProjectByName db
                                        (js_trim (String (arg_project_name args))))
                           else None)
      in case projectResult of
           Some NotFound \<Rightarrow> Inl (ProjectNameNotFound (String (arg_project_name args)))
         | Some MultipleFound \<Rightarrow> Inl (SeveralProjects (String (arg_project_name args)))
         | _ \<Rightarrow>
             (let projectId = (case projectResult of
                                 Some (Found project) \<Rightarrow> Some (project_id project)
                               | _ \<Rightarrow> None)
              in if \<not> truthy (arg_stage_name args) then Inr (projectId, None)
                 else (case projectId of
                         None \<Rightarrow> Inl StageNeedsProject
                       | Some pid \<Rightarrow>
                           (case validateUniqueStageByName db
                                   (js_trim (String (arg_stage_name args))) pid of
                              NotFound \<Rightarrow>
                                Inl (StageNotFoundInGivenProject (String (arg_stage_name args)))
                            | MultipleFound \<Rightarrow>
                                Inl (SeveralStagesInProject (String (arg_stage_name args)))
                            | Found stage \<Rightarrow> Inr (projectId, Some (stage_id stage))))))"

text \<open>
  The handler itself: lines 279-433 list and format the objects found; they run only
  with the identifiers the resolution yields and are the parameter \<open>rest\<close>.
\<close>

definition handleSearchObjects ::
  "(store \<Rightarrow> args \<Rightarrow> ident option \<Rightarrow> ident option \<Rightarrow> 'r) \<Rightarrow> (reply \<Rightarrow> 'r) \<Rightarrow> store \<Rightarrow> args \<Rightarrow> 'r" where
  "handleSearchObjects rest text db args =
     (case handleSearchObjects_resolve db args of
        Inl r \<Rightarrow> text r
      | Inr (projectId, stageId) \<Rightarrow> rest db args projectId stageId)"

text \<open>
  \<open>handleUpdateObject\<close>, lines 528-611: the fields to update, built for the object found.
\<close>

definition objectUpdateData ::
  "store \<Rightarrow> args \<Rightarrow> project_row \<Rightarrow> object_row \<Rightarrow> reply + object_update" where
  "objectUpdateData db args project object =
     (let currentName = js_trim (String (arg_current_name args));
          projectName = js_trim (String (arg_project_name args));
          newName = js_trim (String (arg_new_name args));
          renaming = (truthy (arg_new_name args) \<and> newName \<noteq> currentName)
      in if renaming \<and>
            validateUniqueObjectByNameForUpdate db newName (object_stage_id object) (object_id object)
              = Duplicate
         then Inl (ObjectDuplicateInStage newName)
         else
     (let newStage = (if truthy (arg_new_stage_name args)
                      then findStageByNameExact db (js_trim (String (arg_new_stage_name args)))
                             (project_id project)
                      else None)
      in if truthy (arg_new_stage_name args) \<and> newStage = None
         then Inl (StageNameNotFoundIn (String (arg_new_stage_name args)) projectName)
         else
     (let users = (if truthy (arg_responsible_name args)
                   then searchUsersByQuery db (js_trim (String (arg_responsible_name args)))
                   else [])
      in if truthy (arg_responsible_name args) \<and> length users = 0
         then Inl (UserNotFound (String (arg_responsible_name args)))
         else if truthy (arg_responsible_name args) \<and> length users > 1
         then Inl (SeveralUsers (String (arg_responsible_name args)) (map user_line users))
         else
     (let start = (if truthy (arg_start_date args)
                   then parseDate (String (arg_start_date args)) else None)
      in if truthy (arg_start_date args) \<and> start = None
         then Inl (BadStartDate (String (arg_start_date args)))
         else
     (let end' = (if truthy (arg_end_date args)
                  then parseDate (String (arg_end_date args)) else None)
      in if truthy (arg_end_date args) \<and> end' = None
         then Inl (BadEndDate (String (arg_end_date args)))
         else Inr \<lparr> upd_object_id = object_id object,
                    upd_object_name = (if renaming then Some newName else None),
                    upd_object_description =
                      (case arg_description args of
                         None \<Rightarrow> None
                       | Some d \<Rightarrow> trimmed_or_undefined (Some d)),
                    upd_object_stage_id = map_option stage_id newStage,
                    upd_object_project_id = None,
                    upd_object_responsible = (case users of [] \<Rightarrow> None | u # _ \<Rightarrow> Some (user_id u)),
                    upd_object_start_date = start,
                    upd_object_end_date = end' \<rparr>)))))"

text \<open>\<open>handleUpdateObject\<close>, lines 492-527: the project, the optional stage and the object.\<close>

definition handleUpdateObject_find :: "store \<Rightarrow> args \<Rightarrow> reply + (project_row \<times> object_row)" where
  "handleUpdateObject_find db args =
     (let currentName = js_trim (String (arg_current_name args));
          projectName = js_trim (String (arg_project_name args))
      in case findProjectByNameExact db projectName of
           None \<Rightarrow> Inl (ProjectNameNotFound projectName)
         | Some project \<Rightarrow>
             (let stage = (if truthy (arg_stage_name args)
                           then findStageByNameExact db (js_trim (String (arg_stage_name args)))
                                  (project_id project)
                           else None)
              in if truthy (arg_stage_name args) \<and> stage = None
                 then Inl (StageNameNotFoundIn (String (arg_stage_name args)) projectName)
                 else (case findObjectByNameExact db currentName (project_id project)
                              (map_option stage_id stage) of
                         None \<Rightarrow> Inl (ObjectNotFoundIn currentName projectName)
                       | Some object \<Rightarrow> Inr (project, object))))"

definition object_changes :: "string \<Rightarrow> object_update \<Rightarrow> change list" where
  "object_changes currentName u =
     (if truthy (upd_object_name u) then [NameChange currentName (String (upd_object_name u))] else []) @
     (if upd_object_description u \<noteq> None then [DescriptionChange] else []) @
     (if upd_object_stage_id u \<noteq> None then [StageChange] else []) @
     (if upd_object_responsible u \<noteq> None then [ResponsibleChange] else []) @
     (if truthy (upd_object_start_date u)
      then [StartDateChange (formatDateForDisplay (String (upd_object_start_date u)))] else []) @
     (if truthy (upd_object_end_date u)
      then [EndDateChange (formatDateForDisplay (String (upd_object_end_date u)))] else [])"

text \<open>\<open>handleUpdateObject\<close> as a whole; lines 612-652 are the range check and the update.\<close>

definition handleUpdateObject :: "(string \<Rightarrow> int option) \<Rightarrow> store \<Rightarrow> args \<Rightarrow> reply \<times> store" where
  "handleUpdateObject newDate db args =
     (let currentName = js_trim (String (arg_current_name args));
          projectName = js_trim (String (arg_project_name args))
      in case handleUpdateObject_find db args of
           Inl r \<Rightarrow> (r, db)
         | Inr (project, object) \<Rightarrow>
             (case objectUpdateData db args project object of
                Inl r \<Rightarrow> (r, db)
              | Inr updateData \<Rightarrow>
                  (let finalStartDate = js_or (upd_object_start_date updateData) (object_start_date object);
                       finalEndDate = js_or (upd_object_end_date updateData) (object_end_date object)
                   in if \<not> validateDateRange newDate finalStartDate finalEndDate
                      then (InvertedRange, db)
                      else (case updateObject db updateData of
                              (result, db') \<Rightarrow>
                                (if \<not> success result
                                 then ObjectUpdateFailed (message result)
                                 else ObjectUpdatedReport currentName projectName
                                        (object_changes currentName updateData),
                                 db')))))"

section \<open>Section tools (part_002, lines 803-1368)\<close>

text \<open>
  \<open>handleCreateSection\<close>: the object is looked up by name alone; no check of the section
  name precedes the insert.
\<close>

definition handleCreateSection :: "(string \<Rightarrow> int option) \<Rightarrow> store \<Rightarrow> args \<Rightarrow> reply \<times> store" where
  "handleCreateSection newDate db args =
     (let sectionName = js_trim (String (arg_section_name args));
          objectName = js_trim (String (arg_object_name args))
      in case validateUniqueObjectByName db objectName None of
           NotFound \<Rightarrow> (ObjectNameNotFound objectName, db)
         | MultipleFound \<Rightarrow> (SeveralObjectsUseSearch objectName, db)
         | Found objectEntity \<Rightarrow>
     (let start = (if truthy (arg_start_date args)
                   then parseDate (js_trim (String (arg_start_date args))) else None)
      in if truthy (arg_start_date args) \<and> start = None
         then (BadStartDate (String (arg_start_date args)), db)
         else
     (let end' = (if truthy (arg_end_date args)
                  then parseDate (js_trim (String (arg_end_date args))) else None)
      in if truthy (arg_end_date args) \<and> end' = None
         then (BadEndDate (String (arg_end_date args)), db)
         else if \<not> validateDateRange newDate start end'
         then (InvertedRange, db)
         else
     (let users = (if truthy (arg_responsible_name args)
                   then searchUsersByQuery db (js_trim (String (arg_responsible_name args)))
                   else [])
      in if truthy (arg_responsible_name args) \<and> length users = 0
         then (UserNotFound (String (arg_responsible_name args)), db)
         else if truthy (arg_responsible_name args) \<and> length users > 1
         then (SeveralUsersOrEmail (String (arg_responsible_name args))
                 (map user_line_plain users), db)
         else
     (let input = \<lparr> section_id = 0,
                    section_name = sectionName,
                    section_description = (if truthy (arg_section_description args)
                                           then Some (js_trim (String (arg_section_description args)))
                                           else None),
                    section_object_id = object_id objectEntity,
                    section_project_id = object_project_id objectEntity,
                    section_type = (if truthy (arg_section_type args)
                                    then Some (js_trim (String (arg_section_type args)))
                                    else None),
                    section_responsible = (case users of [] \<Rightarrow> None | u # _ \<Rightarrow> Some (user_id u)),
                    section_start_date = start,
                    section_end_date = end' \<rparr>
      in (case createSection db input of
            (result, db') \<Rightarrow>
              (if success result
               then SectionCreatedIn (message result) sectionName (object_name objectEntity)
               else ServiceMessage (message result),
               db')))))))"

text \<open>\<open>handleUpdateSection\<close>, lines 1232-1306: the fields to update.\<close>

definition sectionUpdateData :: "store \<Rightarrow> args \<Rightarrow> section_row \<Rightarrow> reply + section_update" where
  "sectionUpdateData db args section =
     (let currentName = js_trim (String (arg_current_name args));
          newName = js_trim (String (arg_new_name args));
          renaming = (truthy (arg_new_name args) \<and> newName \<noteq> currentName)
      in if renaming \<and>
            validateUniqueSectionByNameForUpdate db newName (section_object_id section)
              (section_id section) = Duplicate
         then Inl (SectionDuplicateInObject newName)
         else
     (let users = (if truthy (arg_responsible_name args)
                   then searchUsersByQuery db (js_trim (String (arg_responsible_name args)))
                   else [])
      in if truthy (arg_responsible_name args) \<and> length users = 0
         then Inl (UserNotFound (String (arg_responsible_name args)))
         else if truthy (arg_responsible_name args) \<and> length users > 1
         then Inl (SeveralUsers (String (arg_responsible_name args)) (map user_line users))
         else
     (let start = (if truthy (arg_start_date args)
                   then parseDate (String (arg_start_date args)) else None)
      in if truthy (arg_start_date args) \<and> start = None
         then Inl (BadStartDate (String (arg_start_date args)))
         else
     (let end' = (if truthy (arg_end_date args)
                  then parseDate (String (arg_end_date args)) else None)
      in if truthy (arg_end_date args) \<and> end' = None
         then Inl (BadEndDate (String (arg_end_date args)))
         else Inr \<lparr> upd_section_id = section_id section,
                    upd_section_name = (if renaming then Some newName else None),
                    upd_section_description =
                      (case arg_description args of
                         None \<Rightarrow> None
                       | Some d \<Rightarrow> trimmed_or_undefined (Some d)),
                    upd_section_object_id = None,
                    upd_section_project_id = None,
                    upd_section_type =
                      (case arg_type args of
                         None \<Rightarrow> None
                       | Some t \<Rightarrow> trimmed_or_undefined (Some t)),
                    upd_section_responsible = (case users of [] \<Rightarrow> None | u # _ \<Rightarrow> Some (user_id u)),
                    upd_section_start_date = start,
                    upd_section_end_date = end' \<rparr>))))"

text \<open>\<open>handleUpdateSection\<close>, lines 1196-1231: the project, the optional object and the section.\<close>

definition handleUpdateSection_find :: "store \<Rightarrow> args \<Rightarrow> reply + section_row" where
  "handleUpdateSection_find db args =
     (let currentName = js_trim (String (arg_current_name args));
          projectName = js_trim (String (arg_project_name args))
      in case findProjectByNameExact db projectName of
           None \<Rightarrow> Inl (ProjectNameNotFound projectName)
         | Some project \<Rightarrow>
             (let object = (if truthy (arg_object_name args)
                            then findObjectByNameExact db (js_trim (String (arg_object_name args)))
                                   (project_id project) None
                            else None)
              in if truthy (arg_object_name args) \<and> object = None
                 then Inl (ObjectNotFoundIn (String (arg_object_name args)) projectName)
                 else (case findSectionByNameExact db currentName (project_id project)
                              (map_option object_id object) of
                         None \<Rightarrow> Inl (SectionNotFoundIn currentName projectName)
                       | Some section \<Rightarrow> Inr section)))"

definition section_changes :: "string \<Rightarrow> section_update \<Rightarrow> change list" where
  "section_changes currentName u =
     (if truthy (upd_section_name u) then [NameChange currentName (String (upd_section_name u))] else []) @
     (if upd_section_description u \<noteq> None then [DescriptionChange] else []) @
     (if upd_section_responsible u \<noteq> None then [ResponsibleChange] else []) @
     (if upd_section_type u \<noteq> None then [TypeChange (upd_section_type u)] else []) @
     (if truthy (upd_section_start_date u)
      then [StartDateChange (formatDateForDisplay (String (upd_section_start_date u)))] else []) @
     (if truthy (upd_section_end_date u)
      then [EndDateChange (formatDateForDisplay (String (upd_section_end_date u)))] else [])"

text \<open>\<open>handleUpdateSection\<close> as a whole; lines 1307-1347 are the range check and the update.\<close>

definition handleUpdateSection :: "(string \<Rightarrow> int option) \<Rightarrow> store \<Rightarrow> args \<Rightarrow> reply \<times> store" where
  "handleUpdateSection newDate db args =
     (let currentName = js_trim (String (arg_current_name args));
          projectName = js_trim (String (arg_project_name args))
      in case handleUpdateSection_find db args of
           Inl r \<Rightarrow> (r, db)
         | Inr section \<Rightarrow>
             (case sectionUpdateData db args section of
                Inl r \<Rightarrow> (r, db)
              | Inr updateData \<Rightarrow>
                  (let finalStartDate = js_or (upd_section_start_date updateData)
                                          (section_start_date section);
                       finalEndDate = js_or (upd_section_end_date updateData)
                                        (section_end_date section)
                   in if \<not> validateDateRange newDate finalStartDate finalEndDate
                      then (InvertedRange, db)
                      else (case updateSection db updateData of
                              (result, db') \<Rightarrow>
                                (if \<not> success result
                                 then SectionUpdateFailed (message result)
                                 else SectionUpdatedReport currentName projectName
                                        (section_changes currentName updateData),
                                 db')))))"

text \<open>
  \<open>handleSearchSections\<close>, lines 994-1042: the filters of the listing. A project or
  object name that matches nothing leaves its filter out; of several matches the first
  is taken. Only the search for the responsible person can end the request here.
\<close>

record section_filters =
  flt_limit :: nat
  flt_offset :: nat
  flt_section_name :: "string option"
  flt_project_id :: "ident option"
  flt_object_id :: "ident option"
  flt_section_type :: "string option"
  flt_responsible :: "ident option"

definition handleSearchSections_filters :: "store \<Rightarrow> args \<Rightarrow> reply + section_filters" where
  "handleSearchSections_filters db args =
     (let projects = (if truthy (arg_project_name args)
                      then searchProjectsByName db (js_trim (String (arg_project_name args)))
                      else []);
          objects = (if truthy (arg_object_name args)
                     then searchObjectsByName db (js_trim (String (arg_object_name args))) None
                     else []);
          users = (if truthy (arg_responsible_name args)
                   then searchUsersByQuery db (js_trim (String (arg_responsible_name args)))
                   else [])
      in if truthy (arg_responsible_name args) \<and> length users = 0
         then Inl (UserNotFound (String (arg_responsible_name args)))
         else if truthy (arg_responsible_name args) \<and> length users > 1
         then Inl (SeveralUsers (String (arg_responsible_name args)) (map user_line users))
         else Inr \<lparr> flt_limit = (case arg_limit args of None \<Rightarrow> 10
                                     | Some n \<Rightarrow> if n = 0 then 10 else n),
                    flt_offset = (case arg_offset args of None \<Rightarrow> 0 | Some n \<Rightarrow> n),
                    flt_section_name = (if truthy (arg_section_name args)
                                        then Some (js_trim (String (arg_section_name args)))
                                        else None),
                    flt_project_id = (case projects of [] \<Rightarrow> None
                                      | p # _ \<Rightarrow> Some (project_id p)),
                    flt_object_id = (case objects of [] \<Rightarrow> None
                                     | ob # _ \<Rightarrow> Some (object_id ob)),
                    flt_section_type = (if truthy (arg_section_type args)
                                        then Some (String (arg_section_type args))
                                        else None),
                    flt_responsible = (case users of [] \<Rightarrow> None
                                       | u # _ \<Rightarrow> Some (user_id u)) \<rparr>)"

text \<open>
  The handler itself: lines 1043-1135 list the sections with these filters and format
  them; they are the parameter \<open>rest\<close>.
\<close>

definition handleSearchSections ::
  "(store \<Rightarrow> args \<Rightarrow> section_filters \<Rightarrow> 'r) \<Rightarrow> (reply \<Rightarrow> 'r) \<Rightarrow> store \<Rightarrow> args \<Rightarrow> 'r" where
  "handleSearchSections rest text db args =
     (case handleSearchSections_filters db args of
        Inl r \<Rightarrow> text r
      | Inr filters \<Rightarrow> rest db args filters)"

section \<open>Notions of the specification\<close>

text \<open>
  A valid date in display form: two digits of the day, a dot, two digits of the month,
  a dot and four digits of the year, with the day in 1-31, the month in 1-12 and the
  year in 1900-2100.
\<close>

definition valid_ddmmyyyy :: "string \<Rightarrow> bool" where
  "valid_ddmmyyyy s =
     (case s of
        [d1, d2, p, m1, m2, q, y1, y2, y3, y4] \<Rightarrow>
          list_all is_digit [d1, d2, m1, m2, y1, y2, y3, y4] \<and> p = CHR ''.'' \<and> q = CHR ''.'' \<and>
          10 * digit_val d1 + digit_val d2 \<in> {1..31} \<and>
          10 * digit_val m1 + digit_val m2 \<in> {1..12} \<and>
          1000 * digit_val y1 + 100 * digit_val y2 + 10 * digit_val y3 + digit_val y4
            \<in> {1900..2100}
      | _ \<Rightarrow> False)"

text \<open>
  The records that belong to a project: its stages, the objects and the sections that
  carry its identifier. \<open>project_records\<close> is their number.
\<close>

definition project_records :: "store \<Rightarrow> ident \<Rightarrow> nat" where
  "project_records db pid =
     length (filter (\<lambda>s. section_project_id s = pid) (sections db)) +
     length (filter (\<lambda>ob. object_project_id ob = pid) (objects db)) +
     length (filter (\<lambda>s. stage_project_id s = pid) (stages db))"

text \<open>
  The descendants of a project along the hierarchy: its stages, the objects of these
  stages and the sections of these objects.
\<close>

definition stages_of :: "store \<Rightarrow> ident \<Rightarrow> stage_row list" where
  "stages_of db pid = filter (\<lambda>s. stage_project_id s = pid) (stages db)"

definition objects_under :: "store \<Rightarrow> ident \<Rightarrow> object_row list" where
  "objects_under db pid =
     filter (\<lambda>ob. object_stage_id ob \<in> set (map stage_id (stages_of db pid))) (objects db)"

definition sections_under :: "store \<Rightarrow> ident \<Rightarrow> section_row list" where
  "sections_under db pid =
     filter (\<lambda>s. section_object_id s \<in> set (map object_id (objects_under db pid))) (sections db)"

definition descendant_count :: "store \<Rightarrow> ident \<Rightarrow> nat" where
  "descendant_count db pid =
     length (sections_under db pid) + length (objects_under db pid) + length (stages_of db pid)"

text \<open>
  The data model's denormalised project reference: every object has its stage and
  carries that stage's project, every section has its object and carries that object's
  project.
\<close>

definition hierarchy_consistent :: "store \<Rightarrow> bool" where
  "hierarchy_consistent db =
     (list_all (\<lambda>ob. list_ex (\<lambda>s. stage_id s = object_stage_id ob) (stages db) \<and>
                      list_all (\<lambda>s. stage_id s = object_stage_id ob \<longrightarrow>
                                     stage_project_id s = object_project_id ob) (stages db))
        (objects db) \<and>
      list_all (\<lambda>s. list_ex (\<lambda>ob. object_id ob = section_object_id s) (objects db) \<and>
                     list_all (\<lambda>ob. object_id ob = section_object_id s \<longrightarrow>
                                     object_project_id ob = section_project_id s) (objects db))
        (sections db))"

text \<open>The store answers a call of the service: the call is not among the failing ones.\<close>

definition answered :: "store \<Rightarrow> string \<Rightarrow> bool" where
  "answered db call = (map_of (faults db) call = None)"

text \<open>The project with identifier \<open>pid\<close> exists: one row has that key.\<close>

definition project_exists :: "store \<Rightarrow> ident \<Rightarrow> bool" where
  "project_exists db pid = (length (filter (\<lambda>p. project_id p = pid) (projects db)) = 1)"

section \<open>Example stores\<close>

text \<open>
  The theorems hold for every reading of date texts. The examples need one: \<open>iso_date\<close>
  reads a text of the form \<open>yyyy-mm-dd\<close>, the form \<open>parseDate\<close> produces and the
  example rows hold, as the number of days from 1970-01-01 to that day; a day number
  beyond the month's length rolls over into the next month. No example hands it a text of
  another form, and it reads none of them. The store of the examples matches the pattern
  \<open>%name%\<close> with the text \<open>name\<close> alone.
\<close>

definition days_from_civil :: "int \<Rightarrow> int \<Rightarrow> int \<Rightarrow> int" where
  "days_from_civil y m d =
     (let y' = (if m \<le> 2 then y - 1 else y);
          era = y' div 400;
          yoe = y' - era * 400;
          doy = (153 * (if m > 2 then m - 3 else m + 9) + 2) div 5 + d - 1;
          doe = yoe * 365 + yoe div 4 - yoe div 100 + doy
      in era * 146097 + doe - 719468)"

definition iso_date :: "string \<Rightarrow> int option" where
  "iso_date s =
     (case s of
        [y1, y2, y3, y4, p, m1, m2, q, d1, d2] \<Rightarrow>
          (let y = 1000 * digit_val y1 + 100 * digit_val y2 + 10 * digit_val y3 + digit_val y4;
               m = 10 * digit_val m1 + digit_val m2;
               d = 10 * digit_val d1 + digit_val d2
           in if list_all is_digit [y1, y2, y3, y4, m1, m2, d1, d2] \<and> p = CHR ''-'' \<and>
                 q = CHR ''-'' \<and> 1 \<le> m \<and> m \<le> 12 \<and> 1 \<le> d \<and> d \<le> 31
              then Some (days_from_civil (int y) (int m) 1 + int d - 1)
              else None)
      | _ \<Rightarrow> None)"


text \<open>
  The store of the specification's scenario: project Tower A, its stage Foundation,
  the object Block 1 of that stage and the section Rebar Plan of that object.
\<close>

definition tower_project :: project_row where
  "tower_project = \<lparr> project_id = 1, project_name = ''Tower A'', project_description = None \<rparr>"

definition foundation_stage :: stage_row where
  "foundation_stage = \<lparr> stage_id = 2, stage_name = ''Foundation'', stage_project_id = 1 \<rparr>"

definition block_object :: object_row where
  "block_object = \<lparr> object_id = 3, object_name = ''Block 1'', object_description = None,
                     object_stage_id = 2, object_project_id = 1, object_responsible = None,
                     object_start_date = Some ''2024-03-01'', object_end_date = Some ''2024-06-30'' \<rparr>"

definition rebar_section :: section_row where
  "rebar_section = \<lparr> section_id = 4, section_name = ''Rebar Plan'', section_description = None,
                      section_object_id = 3, section_project_id = 1, section_type = None,
                      section_responsible = None,
                      section_start_date = Some ''2024-03-01'', section_end_date = Some ''2024-06-30'' \<rparr>"

definition tower_store :: store where
  "tower_store = \<lparr> projects = [tower_project], stages = [foundation_stage],
                    objects = [block_object], sections = [rebar_section], profiles = [],
                    next_id = 5, or_filter = (\<lambda>_ _. False),
                    ilike = (\<lambda>pat txt. pat = ''%'' @ txt @ ''%''), faults = [] \<rparr>"

text \<open>A call without any property, and the request that creates the section again.\<close>

definition no_args :: args where
  "no_args = \<lparr> arg_project_name = None, arg_stage_name = None, arg_object_name = None,
                arg_section_name = None, arg_current_name = None, arg_new_name = None,
                arg_new_stage_name = None, arg_description = None, arg_object_description = None,
                arg_section_description = None, arg_section_type = None, arg_type = None,
                arg_responsible_name = None, arg_start_date = None, arg_end_date = None,
                arg_limit = None, arg_offset = None \<rparr>"

definition rebar_again :: args where
  "rebar_again = no_args\<lparr> arg_section_name := Some ''Rebar Plan'',
                           arg_object_name := Some ''Block 1'' \<rparr>"

text \<open>
  Two projects with the same name, told apart by their descriptions; and a project with
  two stages, each holding one object named Block 1.
\<close>

definition twin_store :: store where
  "twin_store = tower_store\<lparr> projects :=
       [tower_project\<lparr> project_description := Some ''north site'' \<rparr>,
        tower_project\<lparr> project_id := 8, project_description := Some ''south site'' \<rparr>] \<rparr>"

definition frame_stage :: stage_row where
  "frame_stage = \<lparr> stage_id = 7, stage_name = ''Frame'', stage_project_id = 1 \<rparr>"

definition two_blocks_store :: store where
  "two_blocks_store = tower_store\<lparr> stages := [foundation_stage, frame_stage],
       objects := [block_object, block_object\<lparr> object_id := 9, object_stage_id := 7 \<rparr>] \<rparr>"

definition block_in_tower :: args where
  "block_in_tower = no_args\<lparr> arg_object_name := Some ''Block 1'',
                              arg_stage_name := Some ''Foundation'',
                              arg_project_name := Some ''Tower A'' \<rparr>"

text \<open>The reference a reply is about, if any.\<close>

datatype reference = ProjectRef | StageRef | ObjectRef | ResponsibleRef

fun concerns :: "reply \<Rightarrow> reference option" where
  "concerns (ProjectNameNotFound _) = Some ProjectRef"
| "concerns (SeveralProjectsUseSearch _) = Some ProjectRef"
| "concerns (SeveralProjects _) = Some ProjectRef"
| "concerns StageNeedsProject = Some ProjectRef"
| "concerns (StageNameNotFoundIn _ _) = Some StageRef"
| "concerns (SeveralStagesIn _ _) = Some StageRef"
| "concerns (StageNotFoundInGivenProject _) = Some StageRef"
| "concerns (SeveralStagesInProject _) = Some StageRef"
| "concerns (ObjectNameNotFound _) = Some ObjectRef"
| "concerns (SeveralObjectsUseSearch _) = Some ObjectRef"
| "concerns (ObjectNotFoundIn _ _) = Some ObjectRef"
| "concerns (UserNotFound _) = Some ResponsibleRef"
| "concerns (SeveralUsersOrEmail _ _) = Some ResponsibleRef"
| "concerns (SeveralUsers _ _) = Some ResponsibleRef"
| "concerns _ = None"

text \<open>Two stages of one name in the project; a request for a project and a stage that do not exist.\<close>

definition twin_stage_store :: store where
  "twin_stage_store = tower_store\<lparr> stages := [foundation_stage, foundation_stage\<lparr> stage_id := 7 \<rparr>] \<rparr>"


text \<open>Requests whose stage, or whose responsible person, is the first reference to fail.\<close>

definition block_under_roof :: args where
  "block_under_roof = block_in_tower\<lparr> arg_stage_name := Some ''Roof'' \<rparr>"

definition block2_for_ann :: args where
  "block2_for_ann = block_in_tower\<lparr> arg_object_name := Some ''Block 2'',
                                     arg_responsible_name := Some ''Ann'' \<rparr>"







text \<open>
  The date an update supplies (the parsed argument, when the argument is given), and the
  effective date: the supplied one where present, otherwise the stored one.
\<close>

definition supplied_date :: "string option \<Rightarrow> string option" where
  "supplied_date x = (if truthy x then parseDate (String x) else None)"

definition effective_date :: "string option \<Rightarrow> string option \<Rightarrow> string option" where
  "effective_date new stored = (case new of Some d \<Rightarrow> Some d | None \<Rightarrow> stored)"

text \<open>
  Updates that supply one date: an end before the stored start of Block 1, a later end,
  and a start after the stored end of Rebar Plan.
\<close>

definition shorten_block :: args where
  "shorten_block = no_args\<lparr> arg_current_name := Some ''Block 1'',
                             arg_project_name := Some ''Tower A'',
                             arg_end_date := Some ''01.02.2024'' \<rparr>"

definition extend_block :: args where
  "extend_block = shorten_block\<lparr> arg_end_date := Some ''31.12.2024'' \<rparr>"

definition delay_rebar :: args where
  "delay_rebar = no_args\<lparr> arg_current_name := Some ''Rebar Plan'',
                           arg_project_name := Some ''Tower A'',
                           arg_start_date := Some ''01.07.2024'' \<rparr>"

text \<open>Renames to the current name, the new name given with blanks around it.\<close>

definition rename_block_same :: args where
  "rename_block_same = no_args\<lparr> arg_current_name := Some ''Block 1'',
                                 arg_project_name := Some ''Tower A'',
                                 arg_new_name := Some '' Block 1 '' \<rparr>"

definition rename_rebar_same :: args where
  "rename_rebar_same = no_args\<lparr> arg_current_name := Some ''Rebar Plan'',
                                 arg_project_name := Some ''Tower A'',
                                 arg_new_name := Some ''Rebar Plan'' \<rparr>"

text \<open>
  A store whose stage holds Block 1 and Block 2 and whose four rename checks currently
  fail, and the request that renames Block 2 to Block 1.
\<close>

definition block2_object :: object_row where
  "block2_object = block_object\<lparr> object_id := 9, object_name := ''Block 2'' \<rparr>"

definition faulty_store :: store where
  "faulty_store = tower_store\<lparr> objects := [block_object, block2_object],
       faults := [(''validateUniqueProjectByNameForUpdate'', ''connection lost''),
                  (''validateUniqueStageByNameForUpdate'', ''connection lost''),
                  (''validateUniqueObjectByNameForUpdate'', ''connection lost''),
                  (''validateUniqueSectionByNameForUpdate'', ''connection lost'')] \<rparr>"

definition rename_block2 :: args where
  "rename_block2 = no_args\<lparr> arg_current_name := Some ''Block 2'',
                             arg_project_name := Some ''Tower A'',
                             arg_new_name := Some ''Block 1'' \<rparr>"

text \<open>
  Two projects, and the store after \<open>updateStage\<close> gave the stage Foundation to the
  second one: the object and the section below the stage still carry the first project.
  In the last store the three count queries of the cascade information fail.
\<close>

definition tower_b_project :: project_row where
  "tower_b_project = \<lparr> project_id = 8, project_name = ''Tower B'', project_description = None \<rparr>"

definition two_towers_store :: store where
  "two_towers_store = tower_store\<lparr> projects := [tower_project, tower_b_project] \<rparr>"

definition moved_store :: store where
  "moved_store = two_towers_store\<lparr> stages := [foundation_stage\<lparr> stage_project_id := 8 \<rparr>] \<rparr>"

definition uncounted_store :: store where
  "uncounted_store = tower_store\<lparr> faults :=
       [(''getCascadeDeleteInfo.sections'', ''timeout''),
        (''getCascadeDeleteInfo.objects'', ''timeout''),
        (''getCascadeDeleteInfo.stages'', ''timeout'')] \<rparr>"

text \<open>
  The name a request gives for a reference, the people found for the responsible
  person it names, and the acceptance of its dates by the create-object handler: each
  date given parses, and the pair passes the range check.
\<close>

definition requested :: "string option \<Rightarrow> string" where
  "requested x = js_trim (String x)"

definition person_lookup :: "store \<Rightarrow> args \<Rightarrow> user_row list" where
  "person_lookup db args = searchUsersByQuery db (requested (arg_responsible_name args))"








text \<open>
  A stage that holds two objects named Block 1; an update of Block 1 that names its
  stage; and a search for the sections of Tower A.
\<close>

definition twin_blocks_store :: store where
  "twin_blocks_store = tower_store\<lparr> objects := [block_object, block_object\<lparr> object_id := 9 \<rparr>] \<rparr>"

definition block_of_foundation :: args where
  "block_of_foundation = no_args\<lparr> arg_current_name := Some ''Block 1'',
                                    arg_project_name := Some ''Tower A'',
                                    arg_stage_name := Some ''Foundation'' \<rparr>"

definition sections_of_tower_a :: args where
  "sections_of_tower_a = no_args\<lparr> arg_project_name := Some ''Tower A'' \<rparr>"
section \<open>Trimming\<close>

lemma dropWhile_snoc_keeps:
  "\<not> P a \<Longrightarrow> \<exists>v. dropWhile P (xs @ [a]) = v @ [a]"
  by (simp add: dropWhile_append)

lemma js_trim_no_leading_ws: "dropWhile is_ws (js_trim s) = js_trim s"
proof (cases "dropWhile is_ws s")
  case Nil
  show ?thesis unfolding js_trim_def Nil by simp
next
  case (Cons a u)
  then have na: "\<not> is_ws a"
    by (metis hd_dropWhile list.distinct(1) list.sel(1))
  from dropWhile_snoc_keeps [of is_ws a "rev u"] na obtain v where
    "dropWhile is_ws (rev u @ [a]) = v @ [a]" by blast
  then have "js_trim s = a # rev v"
    by (simp add: js_trim_def Cons)
  with na show ?thesis by simp
qed

lemma js_trim_idem: "js_trim (js_trim s) = js_trim s"
proof -
  have "dropWhile is_ws (rev (js_trim s)) = rev (js_trim s)"
    by (simp add: js_trim_def)
  then show ?thesis
    by (simp add: js_trim_def [of "js_trim s"] js_trim_no_leading_ws)
qed

section \<open>Dates: the round trip\<close>

lemma valid_ddmmyyyy_shape:
  assumes "valid_ddmmyyyy s"
  obtains d1 d2 m1 m2 y1 y2 y3 y4 where
    "s = [d1, d2, CHR ''.'', m1, m2, CHR ''.'', y1, y2, y3, y4]"
    "is_digit d1" "is_digit d2" "is_digit m1" "is_digit m2"
    "is_digit y1" "is_digit y2" "is_digit y3" "is_digit y4"
    "1 \<le> 10 * digit_val d1 + digit_val d2" "10 * digit_val d1 + digit_val d2 \<le> 31"
    "1 \<le> 10 * digit_val m1 + digit_val m2" "10 * digit_val m1 + digit_val m2 \<le> 12"
    "1900 \<le> 1000 * digit_val y1 + 100 * digit_val y2 + 10 * digit_val y3 + digit_val y4"
    "1000 * digit_val y1 + 100 * digit_val y2 + 10 * digit_val y3 + digit_val y4 \<le> 2100"
  using assms unfolding valid_ddmmyyyy_def
  by (auto split: list.splits)

lemma digit_not_ws: "is_digit c \<Longrightarrow> \<not> is_ws c"
  by (auto simp: is_digit_def is_ws_def)

lemma digit_not_dot: "is_digit c \<Longrightarrow> c \<noteq> CHR ''.''"
  by (auto simp: is_digit_def)

lemma digit_not_dash: "is_digit c \<Longrightarrow> c \<noteq> CHR ''-''"
  by (auto simp: is_digit_def)

lemma parseInt10_two:
  "is_digit a \<Longrightarrow> is_digit b \<Longrightarrow> parseInt10 [a, b] = Some (10 * digit_val a + digit_val b)"
  by (simp add: parseInt10_def)

lemma parseInt10_four:
  "is_digit a \<Longrightarrow> is_digit b \<Longrightarrow> is_digit c \<Longrightarrow> is_digit d \<Longrightarrow>
   parseInt10 [a, b, c, d] =
     Some (1000 * digit_val a + 100 * digit_val b + 10 * digit_val c + digit_val d)"
  by (simp add: parseInt10_def)

text \<open>
  C7. For every valid date text in the form dd.mm.yyyy (two-digit day 1-31, two-digit
  month 1-12, four-digit year 1900-2100), \<open>parseDate\<close> accepts the text and
  \<open>formatDateForDisplay\<close> of its result is the original text.
\<close>

theorem date_round_trip:
  assumes "valid_ddmmyyyy s"
  shows "map_option formatDateForDisplay (parseDate s) = Some s"
proof -
  from assms obtain d1 d2 m1 m2 y1 y2 y3 y4 where
    s: "s = [d1, d2, CHR ''.'', m1, m2, CHR ''.'', y1, y2, y3, y4]" and
    dg: "is_digit d1" "is_digit d2" "is_digit m1" "is_digit m2"
    "is_digit y1" "is_digit y2" "is_digit y3" "is_digit y4" and
    rg: "1 \<le> 10 * digit_val d1 + digit_val d2" "10 * digit_val d1 + digit_val d2 \<le> 31"
    "1 \<le> 10 * digit_val m1 + digit_val m2" "10 * digit_val m1 + digit_val m2 \<le> 12"
    "1900 \<le> 1000 * digit_val y1 + 100 * digit_val y2 + 10 * digit_val y3 + digit_val y4"
    "1000 * digit_val y1 + 100 * digit_val y2 + 10 * digit_val y3 + digit_val y4 \<le> 2100"
    by (rule valid_ddmmyyyy_shape)
  have tr: "js_trim s = s"
    using dg by (simp add: s js_trim_def digit_not_ws)
  have rx: "dateRegex s"
    using dg by (simp add: s dateRegex_def)
  have sp: "js_split (CHR ''.'') s = [[d1, d2], [m1, m2], [y1, y2, y3, y4]]"
    using dg by (simp add: s digit_not_dot)
  define D where "D = 10 * digit_val d1 + digit_val d2"
  define M where "M = 10 * digit_val m1 + digit_val m2"
  define Y where "Y = 1000 * digit_val y1 + 100 * digit_val y2 + 10 * digit_val y3 + digit_val y4"
  have ok: "\<not> (D < 1 \<or> D > 31 \<or> M < 1 \<or> M > 12 \<or> Y < 1900 \<or> Y > 2100)"
    using rg unfolding D_def M_def Y_def by arith
  have pi: "parseInt10 [d1, d2] = Some D" "parseInt10 [m1, m2] = Some M"
    "parseInt10 [y1, y2, y3, y4] = Some Y"
    using dg by (simp_all add: parseInt10_two parseInt10_four D_def M_def Y_def)
  have ne: "s \<noteq> []" by (simp add: s)
  have p: "parseDate s = Some [y1, y2, y3, y4, CHR ''-'', m1, m2, CHR ''-'', d1, d2]"
    unfolding parseDate_def tr
    using rx ok ne by (simp add: sp pi padStart2_def)
  have "js_split (CHR ''-'') [y1, y2, y3, y4, CHR ''-'', m1, m2, CHR ''-'', d1, d2]
        = [[y1, y2, y3, y4], [m1, m2], [d1, d2]]"
    using dg by (simp add: digit_not_dash)
  then have "formatDateForDisplay [y1, y2, y3, y4, CHR ''-'', m1, m2, CHR ''-'', d1, d2] = s"
    by (simp add: formatDateForDisplay_def piece_def s)
  with p show ?thesis by simp
qed

theorem date_round_trip_witness:
  "valid_ddmmyyyy ''29.02.2024'' \<and>
   map_option formatDateForDisplay (parseDate ''29.02.2024'') = Some ''29.02.2024''"
proof -
  have v: "valid_ddmmyyyy ''29.02.2024''"
    by (simp add: valid_ddmmyyyy_def is_digit_def digit_val_def)
  from date_round_trip [OF v] v show ?thesis by simp
qed

section \<open>Project deletion without cascade\<close>

lemma answered_respond: "answered db call \<Longrightarrow> respond db call rows = Data rows"
  by (simp add: answered_def respond_def)

lemma validateProjectExists_iff:
  "answered db ''validateProjectExists'' \<Longrightarrow> validateProjectExists db pid = project_exists db pid"
  by (auto simp: validateProjectExists_def project_exists_def single_def answered_respond
           split: list.splits)

lemma getCascadeDeleteInfo_total:
  assumes "answered db ''getCascadeDeleteInfo.sections''"
    and "answered db ''getCascadeDeleteInfo.objects''"
    and "answered db ''getCascadeDeleteInfo.stages''"
  shows "ci_total (getCascadeDeleteInfo db pid) = project_records db pid"
  using assms
  by (simp add: getCascadeDeleteInfo_def project_records_def count_rows_def Let_def
        answered_respond)

lemma object_in_project_iff:
  assumes "hierarchy_consistent db" "ob \<in> set (objects db)"
  shows "object_stage_id ob \<in> set (map stage_id (stages_of db pid)) \<longleftrightarrow> object_project_id ob = pid"
  using assms unfolding hierarchy_consistent_def stages_of_def list_all_iff list_ex_iff
  by force

lemma objects_under_eq:
  assumes "hierarchy_consistent db"
  shows "objects_under db pid = filter (\<lambda>ob. object_project_id ob = pid) (objects db)"
  unfolding objects_under_def
  by (rule filter_cong [OF refl]) (rule object_in_project_iff [OF assms])

lemma section_in_project_iff:
  assumes "hierarchy_consistent db" "s \<in> set (sections db)"
  shows "section_object_id s \<in> set (map object_id (objects_under db pid)) \<longleftrightarrow> section_project_id s = pid"
  using assms unfolding objects_under_eq [OF assms(1)]
  unfolding hierarchy_consistent_def list_all_iff list_ex_iff
  by force

lemma descendant_count_eq:
  assumes "hierarchy_consistent db"
  shows "descendant_count db pid = project_records db pid"
proof -
  have "sections_under db pid = filter (\<lambda>s. section_project_id s = pid) (sections db)"
    unfolding sections_under_def
    by (rule filter_cong [OF refl]) (rule section_in_project_iff [OF assms])
  then show ?thesis
    by (simp add: descendant_count_def project_records_def objects_under_eq [OF assms] stages_of_def)
qed

text \<open>
  C3 as the code has it. A project-delete request without cascade, for an existing
  project, with the store answering the existence query and the three count queries:
  when \<open>N > 0\<close> stage, object and section records carry the project's identifier in
  their project column, the request is refused with a message that cites exactly \<open>N\<close>,
  and the store is returned as it was. Where the project columns agree with the
  hierarchy, \<open>N\<close> is the number of descendants counted along the hierarchy.
\<close>

theorem deleteProject_without_cascade:
  assumes "answered db ''validateProjectExists''"
    and "answered db ''getCascadeDeleteInfo.sections''"
    and "answered db ''getCascadeDeleteInfo.objects''"
    and "answered db ''getCascadeDeleteInfo.stages''"
    and "project_exists db pid"
    and "project_records db pid = N" and "N > 0"
  shows "success (fst (deleteProject db pid False)) = False \<and>
         message (fst (deleteProject db pid False)) = ProjectHasLinkedData N \<and>
         snd (deleteProject db pid False) = db \<and>
         (hierarchy_consistent db \<longrightarrow> N = descendant_count db pid)"
  using assms
  by (simp add: deleteProject_def validateProjectExists_iff getCascadeDeleteInfo_total
        descendant_count_eq Let_def)

theorem deleteProject_without_cascade_witness:
  "answered tower_store ''validateProjectExists'' \<and>
   answered tower_store ''getCascadeDeleteInfo.sections'' \<and>
   answered tower_store ''getCascadeDeleteInfo.objects'' \<and>
   answered tower_store ''getCascadeDeleteInfo.stages'' \<and>
   project_exists tower_store 1 \<and> project_records tower_store 1 = 3 \<and>
   hierarchy_consistent tower_store \<and> descendant_count tower_store 1 = 3 \<and>
   message (fst (deleteProject tower_store 1 False)) = ProjectHasLinkedData 3 \<and>
   snd (deleteProject tower_store 1 False) = tower_store"
proof -
  have a: "answered tower_store ''validateProjectExists''"
    "answered tower_store ''getCascadeDeleteInfo.sections''"
    "answered tower_store ''getCascadeDeleteInfo.objects''"
    "answered tower_store ''getCascadeDeleteInfo.stages''"
    by (simp_all add: answered_def tower_store_def)
  have b: "project_exists tower_store 1"
    by (simp add: project_exists_def tower_store_def tower_project_def)
  have c: "project_records tower_store 1 = 3"
    by (simp add: project_records_def tower_store_def foundation_stage_def block_object_def
          rebar_section_def)
  have d: "hierarchy_consistent tower_store"
    by (simp add: hierarchy_consistent_def tower_store_def foundation_stage_def block_object_def
          rebar_section_def)
  from deleteProject_without_cascade [OF a b c] a b c d show ?thesis by simp
qed

lemmas tower_defs = tower_store_def tower_project_def foundation_stage_def block_object_def
  rebar_section_def

text \<open>
  C3 as stated fails. \<open>updateStage\<close> gives the stage Foundation to project Tower B; the
  object and the section below it keep the project column of Tower A. Tower B then has
  three descendants along the hierarchy, and its deletion is refused citing one record.
\<close>

theorem deleteProject_cites_project_column:
  "snd (updateStage two_towers_store
          \<lparr> upd_stage_id = 2, upd_stage_name = None, upd_stage_project_id = Some 8 \<rparr>)
     = moved_store \<and>
   project_exists moved_store 8 \<and> faults moved_store = [] \<and>
   descendant_count moved_store 8 = 3 \<and>
   message (fst (deleteProject moved_store 8 False)) = ProjectHasLinkedData 1 \<and>
   snd (deleteProject moved_store 8 False) = moved_store"
proof -
  have u: "snd (updateStage two_towers_store
          \<lparr> upd_stage_id = 2, upd_stage_name = None, upd_stage_project_id = Some 8 \<rparr>)
     = moved_store"
    by (simp add: updateStage_def validateStageExists_def validateProjectExists_def respond_def
          single_def apply_stage_update_def moved_store_def two_towers_store_def
          tower_b_project_def tower_defs)
  have e: "project_exists moved_store 8" "faults moved_store = []"
    by (simp_all add: project_exists_def moved_store_def two_towers_store_def
          tower_b_project_def tower_defs)
  have n: "descendant_count moved_store 8 = 3"
    by (simp add: descendant_count_def sections_under_def objects_under_def stages_of_def
          moved_store_def two_towers_store_def tower_defs)
  have d: "deleteProject moved_store 8 False
             = (Result False (ProjectHasLinkedData 1)
                  (Some \<lparr> ci_sections = 0, ci_objects = 0, ci_stages = 1, ci_total = 1 \<rparr>),
                moved_store)"
    by (simp add: deleteProject_def validateProjectExists_def getCascadeDeleteInfo_def
          count_rows_def respond_def single_def Let_def)
       (simp add: moved_store_def two_towers_store_def tower_b_project_def tower_defs)
  from u e n d show ?thesis by simp
qed

text \<open>
  A count query that fails is read as no rows. With the three count queries failing,
  the project with its three records is deleted without cascade, and they stay behind.
\<close>

lemma deleteProject_failing_counts:
  "message (fst (deleteProject uncounted_store 1 False)) = ProjectDeleted \<and>
   projects (snd (deleteProject uncounted_store 1 False)) = [] \<and>
   stages (snd (deleteProject uncounted_store 1 False)) = [foundation_stage]"
  by (simp add: deleteProject_def validateProjectExists_def getCascadeDeleteInfo_def
        count_rows_def respond_def single_def Let_def uncounted_store_def tower_defs)

section \<open>Creating sections\<close>

lemma two_in_filter:
  assumes "x \<in> set xs" "y \<in> set xs" "x \<noteq> y" "P x" "P y"
  shows "\<exists>a b rest. filter P xs = a # b # rest"
proof -
  have "{x, y} \<subseteq> set (filter P xs)" using assms by simp
  then have "card {x, y} \<le> card (set (filter P xs))"
    by (intro card_mono) simp_all
  also have "\<dots> \<le> length (filter P xs)" by (rule card_length)
  finally have "2 \<le> length (filter P xs)" using assms(3) by simp
  then show ?thesis
    by (cases "filter P xs") (auto simp: Suc_le_eq neq_Nil_conv)
qed

lemma classify_several: "classify (Data (a # b # rest)) = MultipleFound"
  by (simp add: classify_def)

text \<open>
  C9. The create-section handler looks its object up by name alone, with no project or
  stage filter: when the store answers the lookup and holds two objects of that name in
  different stages, the request is answered with the several-objects text and the
  store is returned as it was, nothing being inserted.
\<close>

theorem createSection_unscoped_object_lookup:
  assumes "map_of (faults db) ''validateUniqueObjectByName'' = None"
    and "o1 \<in> set (objects db)" and "o2 \<in> set (objects db)"
    and "object_name o1 = n" and "object_name o2 = n"
    and "object_stage_id o1 \<noteq> object_stage_id o2"
    and "js_trim (String (arg_object_name args)) = n"
  shows "handleCreateSection newDate db args = (SeveralObjectsUseSearch n, db)"
proof -
  have "o1 \<noteq> o2" using assms(6) by auto
  with assms obtain a b rest where
    "filter (\<lambda>ob. object_name ob = n) (objects db) = a # b # rest"
    using two_in_filter [of o1 "objects db" o2 "\<lambda>ob. object_name ob = n"] by auto
  then have "validateUniqueObjectByName db n None = MultipleFound"
    using assms(1) by (simp add: validateUniqueObjectByName_def respond_def classify_several)
  then show ?thesis
    using assms(7) by (simp add: handleCreateSection_def)
qed

lemma trim_Rebar: "js_trim ''Rebar Plan'' = ''Rebar Plan''"
  by (simp add: js_trim_def is_ws_def)

lemma trim_Block: "js_trim ''Block 1'' = ''Block 1''"
  by (simp add: js_trim_def is_ws_def)

lemma trim_Foundation: "js_trim ''Foundation'' = ''Foundation''"
  by (simp add: js_trim_def is_ws_def)

lemma trim_Tower: "js_trim ''Tower A'' = ''Tower A''"
  by (simp add: js_trim_def is_ws_def)

theorem createSection_unscoped_object_lookup_witness:
  "handleCreateSection iso_date two_blocks_store rebar_again = (SeveralObjectsUseSearch ''Block 1'', two_blocks_store) \<and>
   validateUniqueObjectByName two_blocks_store ''Block 1'' (Some 2) = Found block_object \<and>
   validateUniqueObjectByName two_blocks_store ''Block 1'' (Some 7)
     = Found (block_object\<lparr> object_id := 9, object_stage_id := 7 \<rparr>)"
proof -
  have f: "map_of (faults two_blocks_store) ''validateUniqueObjectByName'' = None"
    by (simp add: two_blocks_store_def tower_defs)
  have m: "block_object \<in> set (objects two_blocks_store)"
    "block_object\<lparr> object_id := 9, object_stage_id := 7 \<rparr> \<in> set (objects two_blocks_store)"
    by (simp_all add: two_blocks_store_def tower_defs)
  have n: "object_name block_object = ''Block 1''"
    "object_name (block_object\<lparr> object_id := 9, object_stage_id := 7 \<rparr>) = ''Block 1''"
    "object_stage_id block_object \<noteq> object_stage_id (block_object\<lparr> object_id := 9, object_stage_id := 7 \<rparr>)"
    by (simp_all add: block_object_def)
  have a: "js_trim (String (arg_object_name rebar_again)) = ''Block 1''"
    by (simp add: rebar_again_def no_args_def String_def trim_Block)
  have s: "validateUniqueObjectByName two_blocks_store ''Block 1'' (Some 2) = Found block_object"
    "validateUniqueObjectByName two_blocks_store ''Block 1'' (Some 7)
       = Found (block_object\<lparr> object_id := 9, object_stage_id := 7 \<rparr>)"
    by (simp_all add: validateUniqueObjectByName_def respond_def classify_def two_blocks_store_def
          tower_defs)
  from createSection_unscoped_object_lookup [OF f m n a] s show ?thesis by simp
qed

text \<open>
  C1. Creating a section named as an existing section of the same object: the object
  Block 1 already has the section Rebar Plan, the request is answered with the success
  text, and the store then holds two sections of that name in that object. No check
  of the section name precedes the insert. The request gives no date, so this is so
  however the runtime reads date texts.
\<close>

theorem createSection_inserts_duplicate:
  "\<forall>newDate.
     fst (handleCreateSection newDate tower_store rebar_again)
       = SectionCreatedIn SectionCreated ''Rebar Plan'' ''Block 1'' \<and>
     sections (snd (handleCreateSection newDate tower_store rebar_again))
       = [rebar_section,
          \<lparr> section_id = 5, section_name = ''Rebar Plan'', section_description = None,
            section_object_id = 3, section_project_id = 1, section_type = None,
            section_responsible = None, section_start_date = None, section_end_date = None \<rparr>]"
  by (simp add: handleCreateSection_def rebar_again_def no_args_def String_def truthy_def
        trim_Rebar trim_Block validateUniqueObjectByName_def respond_def classify_def
        validateDateRange_def createSection_def validateProjectExists_def
        validateObjectExists_def single_def tower_defs Let_def)

text \<open>
  The sibling handler does check: creating an object named as an object of the stage is
  refused, and the store is returned as it was.
\<close>

lemma createObject_refuses_taken_name:
  "handleCreateObject newDate tower_store block_in_tower
     = (ObjectExistsInStage ''Foundation'' ''Block 1'', tower_store)"
  by (simp add: handleCreateObject_def block_in_tower_def no_args_def String_def
        trim_Block trim_Foundation trim_Tower validateUniqueProjectByName_def
        validateUniqueStageByName_def validateUniqueObjectByName_def respond_def classify_def
        tower_defs Let_def)

section \<open>Lookups in the example stores\<close>


lemma trim_Roof: "js_trim ''Roof'' = ''Roof''"
  by (simp add: js_trim_def is_ws_def)

lemma trim_Block2: "js_trim ''Block 2'' = ''Block 2''"
  by (simp add: js_trim_def is_ws_def)

lemma trim_Ann: "js_trim ''Ann'' = ''Ann''"
  by (simp add: js_trim_def is_ws_def)

lemma roof_reply:
  "handleCreateObject iso_date tower_store block_under_roof
     = (StageNameNotFoundIn ''Roof'' ''Tower A'', tower_store)"
  by (simp add: handleCreateObject_def block_under_roof_def block_in_tower_def no_args_def
        String_def trim_Block trim_Roof trim_Tower validateUniqueProjectByName_def
        validateUniqueStageByName_def respond_def classify_def tower_defs Let_def)

lemma ann_search: "searchUsersByQuery tower_store ''Ann'' = []"
  by (simp add: searchUsersByQuery_def trim_Ann escapeLike_def is_meta_def respond_def
        tower_defs Let_def)

lemma tower_project_lookup:
  "validateUniqueProjectByName tower_store ''Tower A'' = Found tower_project"
  by (simp add: validateUniqueProjectByName_def respond_def classify_def tower_defs)

lemma tower_stage_lookup:
  "validateUniqueStageByName tower_store ''Foundation'' (project_id tower_project)
     = Found foundation_stage"
  by (simp add: validateUniqueStageByName_def respond_def classify_def tower_defs)

lemma tower_block2_free:
  "validateUniqueObjectByName tower_store ''Block 2'' (Some (stage_id foundation_stage)) = NotFound"
  by (simp add: validateUniqueObjectByName_def respond_def classify_def tower_defs)

lemma ann_reply:
  "handleCreateObject iso_date tower_store block2_for_ann = (UserNotFound ''Ann'', tower_store)"
  by (simp add: handleCreateObject_def createObject_resolved_def block2_for_ann_def
        block_in_tower_def no_args_def String_def truthy_def trim_Block2 trim_Foundation
        trim_Tower trim_Ann ann_search tower_project_lookup tower_stage_lookup
        tower_block2_free validateDateRange_def Let_def)

section \<open>Order of resolution\<close>











lemma handleUpdateObject_find_forward:
  "(findProjectByNameExact db (requested (arg_project_name args)) = None \<longrightarrow>
      handleUpdateObject_find db args = Inl (ProjectNameNotFound (requested (arg_project_name args)))) \<and>
   (\<forall>p. findProjectByNameExact db (requested (arg_project_name args)) = Some p \<longrightarrow>
      (truthy (arg_stage_name args) \<longrightarrow>
         findStageByNameExact db (requested (arg_stage_name args)) (project_id p) = None \<longrightarrow>
         handleUpdateObject_find db args
           = Inl (StageNameNotFoundIn (String (arg_stage_name args))
                    (requested (arg_project_name args)))) \<and>
      (\<not> truthy (arg_stage_name args) \<longrightarrow>
         findObjectByNameExact db (requested (arg_current_name args)) (project_id p) None = None \<longrightarrow>
         handleUpdateObject_find db args
           = Inl (ObjectNotFoundIn (requested (arg_current_name args))
                    (requested (arg_project_name args)))) \<and>
      (\<forall>s. truthy (arg_stage_name args) \<longrightarrow>
         findStageByNameExact db (requested (arg_stage_name args)) (project_id p) = Some s \<longrightarrow>
         findObjectByNameExact db (requested (arg_current_name args)) (project_id p)
           (Some (stage_id s)) = None \<longrightarrow>
         handleUpdateObject_find db args
           = Inl (ObjectNotFoundIn (requested (arg_current_name args))
                    (requested (arg_project_name args)))))"
  by (simp add: handleUpdateObject_find_def requested_def Let_def)

lemma handleUpdateObject_find_backward:
  assumes "handleUpdateObject_find db args = Inl r"
  shows "(concerns r = Some ProjectRef \<longrightarrow>
            findProjectByNameExact db (requested (arg_project_name args)) = None) \<and>
         (concerns r = Some StageRef \<longrightarrow>
            truthy (arg_stage_name args) \<and>
            (\<exists>p. findProjectByNameExact db (requested (arg_project_name args)) = Some p \<and>
                 findStageByNameExact db (requested (arg_stage_name args)) (project_id p) = None)) \<and>
         (concerns r = Some ObjectRef \<longrightarrow>
            (\<exists>p. findProjectByNameExact db (requested (arg_project_name args)) = Some p \<and>
                 (truthy (arg_stage_name args) \<longrightarrow>
                    (\<exists>s. findStageByNameExact db (requested (arg_stage_name args)) (project_id p)
                           = Some s)))) \<and>
         concerns r \<noteq> Some ResponsibleRef"
  using assms
  by (auto simp: handleUpdateObject_find_def requested_def Let_def split: option.splits if_splits)


lemma objectUpdateData_person_reply:
  assumes "objectUpdateData db args p ob = Inl r" and "concerns r = Some ResponsibleRef"
  shows "truthy (arg_responsible_name args) \<and> length (person_lookup db args) \<noteq> 1"
  using assms
  by (auto simp: objectUpdateData_def person_lookup_def requested_def Let_def split: if_splits)

lemma handleUpdateObject_by_phase:
  "(\<forall>r. handleUpdateObject_find db args = Inl r \<longrightarrow> handleUpdateObject newDate db args = (r, db)) \<and>
   (\<forall>p ob r. handleUpdateObject_find db args = Inr (p, ob) \<longrightarrow>
      objectUpdateData db args p ob = Inl r \<longrightarrow> handleUpdateObject newDate db args = (r, db))"
  by (simp add: handleUpdateObject_def Let_def)

lemma handleUpdateObject_person_reply:
  assumes "concerns (fst (handleUpdateObject newDate db args)) = Some ResponsibleRef"
  shows "\<exists>p ob. handleUpdateObject_find db args = Inr (p, ob) \<and>
               truthy (arg_responsible_name args) \<and> length (person_lookup db args) \<noteq> 1"
proof (cases "handleUpdateObject_find db args")
  case (Inl r)
  with assms handleUpdateObject_find_backward [OF Inl] show ?thesis
    by (simp add: handleUpdateObject_def Let_def)
next
  case (Inr po)
  obtain p ob where po: "po = (p, ob)" by (cases po)
  show ?thesis
  proof (cases "objectUpdateData db args p ob")
    case (Inl r)
    with assms Inr po have "concerns r = Some ResponsibleRef"
      by (simp add: handleUpdateObject_def Let_def)
    from objectUpdateData_person_reply [OF Inl this] Inr po show ?thesis by simp
  next
    case (Inr u)
    with assms \<open>handleUpdateObject_find db args = Inr po\<close> po show ?thesis
      by (auto simp: handleUpdateObject_def Let_def split: if_splits prod.splits)
  qed
qed





















section \<open>Person search\<close>


















section \<open>The range check of an update\<close>

lemma parseDate_nonempty: "parseDate s = Some d \<Longrightarrow> d \<noteq> []"
  by (auto simp: parseDate_def Let_def split: if_splits list.splits)

lemma supplied_date_nonempty: "supplied_date x = Some d \<Longrightarrow> d \<noteq> []"
  by (auto simp: supplied_date_def parseDate_nonempty split: if_splits)

lemma js_or_supplied: "js_or (supplied_date x) stored = effective_date (supplied_date x) stored"
  using supplied_date_nonempty [of x]
  by (cases "supplied_date x") (auto simp: js_or_def effective_date_def truthy_def)

lemma or_keep_effective: "or_keep new stored = effective_date new stored"
  by (simp add: or_keep_def effective_date_def split: option.splits)

lemma objectUpdateData_fields:
  assumes "objectUpdateData db args project object = Inr u"
  shows "upd_object_id u = object_id object \<and>
         upd_object_start_date u = supplied_date (arg_start_date args) \<and>
         upd_object_end_date u = supplied_date (arg_end_date args)"
  using assms
  by (auto simp: objectUpdateData_def supplied_date_def Let_def split: if_splits)

lemma sectionUpdateData_fields:
  assumes "sectionUpdateData db args section = Inr u"
  shows "upd_section_id u = section_id section \<and>
         upd_section_start_date u = supplied_date (arg_start_date args) \<and>
         upd_section_end_date u = supplied_date (arg_end_date args)"
  using assms
  by (auto simp: sectionUpdateData_def supplied_date_def Let_def split: if_splits)

lemma single_Data: "single r = Data x \<Longrightarrow> \<exists>rows. r = Data rows \<and> rows = [x]"
  by (auto simp: single_def split: response.splits list.splits if_splits)

lemma orNull_single_mem:
  "orNull (single (respond db call (filter P xs))) = Some x \<Longrightarrow> x \<in> set xs \<and> P x"
proof -
  assume "orNull (single (respond db call (filter P xs))) = Some x"
  then have "single (respond db call (filter P xs)) = Data x"
    by (simp add: orNull_def split: response.splits)
  then have "filter P xs = [x]"
    by (auto dest!: single_Data simp: respond_def split: option.splits)
  then have "x \<in> set (filter P xs)" by simp
  then show ?thesis by simp
qed

lemma findObjectByNameExact_mem:
  "findObjectByNameExact db n pid sid = Some ob \<Longrightarrow> ob \<in> set (objects db) \<and> object_name ob = js_trim n"
  unfolding findObjectByNameExact_def Let_def
  by (drule orNull_single_mem) simp

lemma findSectionByNameExact_mem:
  "findSectionByNameExact db n pid oid = Some s \<Longrightarrow> s \<in> set (sections db) \<and> section_name s = js_trim n"
  unfolding findSectionByNameExact_def Let_def
  by (drule orNull_single_mem) simp

lemma handleUpdateObject_find_mem:
  assumes "handleUpdateObject_find db args = Inr (project, object)"
  shows "object \<in> set (objects db) \<and>
         object_name object = js_trim (js_trim (String (arg_current_name args)))"
  using assms
  by (auto simp: handleUpdateObject_find_def Let_def dest: findObjectByNameExact_mem
           split: option.splits if_splits)

lemma handleUpdateSection_find_mem:
  assumes "handleUpdateSection_find db args = Inr section"
  shows "section \<in> set (sections db) \<and>
         section_name section = js_trim (js_trim (String (arg_current_name args)))"
  using assms
  by (auto simp: handleUpdateSection_find_def Let_def dest: findSectionByNameExact_mem
           split: option.splits if_splits)

lemma updateObject_effect:
  assumes "updateObject db u = (res, db')"
  shows "db' = db \<or>
         (\<exists>x. filter (\<lambda>ob. object_id ob = upd_object_id u) (objects db) = [x] \<and>
              db' = db\<lparr>objects := map (\<lambda>ob. if object_id ob = upd_object_id u
                                              then apply_object_update u ob else ob)
                                      (objects db)\<rparr>)"
proof (cases "validateObjectExists db (upd_object_id u)")
  case False
  with assms show ?thesis by (simp add: updateObject_def)
next
  case True
  then obtain x where x: "filter (\<lambda>ob. object_id ob = upd_object_id u) (objects db) = [x]"
    by (auto simp: validateObjectExists_def respond_def dest!: single_Data
             split: response.splits option.splits)
  from assms show ?thesis
    unfolding updateObject_def x
    by (auto split: if_splits response.splits)
qed

lemma updateSection_effect:
  assumes "updateSection db u = (res, db')"
  shows "db' = db \<or>
         (\<exists>x. filter (\<lambda>s. section_id s = upd_section_id u) (sections db) = [x] \<and>
              db' = db\<lparr>sections := map (\<lambda>s. if section_id s = upd_section_id u
                                              then apply_section_update u s else s)
                                       (sections db)\<rparr>)"
proof (cases "validateSectionExists db (upd_section_id u)")
  case False
  with assms show ?thesis by (simp add: updateSection_def)
next
  case True
  then obtain x where x: "filter (\<lambda>s. section_id s = upd_section_id u) (sections db) = [x]"
    by (auto simp: validateSectionExists_def respond_def dest!: single_Data
             split: response.splits option.splits)
  from assms show ?thesis
    unfolding updateSection_def x
    by (auto split: if_splits response.splits)
qed

lemma apply_object_update_row:
  "object_id (apply_object_update u ob) = object_id ob \<and>
   object_start_date (apply_object_update u ob)
     = effective_date (upd_object_start_date u) (object_start_date ob) \<and>
   object_end_date (apply_object_update u ob)
     = effective_date (upd_object_end_date u) (object_end_date ob)"
  by (simp add: apply_object_update_def or_keep_effective)

lemma apply_section_update_row:
  "section_id (apply_section_update u s) = section_id s \<and>
   section_start_date (apply_section_update u s)
     = effective_date (upd_section_start_date u) (section_start_date s) \<and>
   section_end_date (apply_section_update u s)
     = effective_date (upd_section_end_date u) (section_end_date s)"
  by (simp add: apply_section_update_def or_keep_effective)

lemma handleUpdateObject_range:
  assumes find: "handleUpdateObject_find db args = Inr (project, object)"
  defines "S \<equiv> effective_date (supplied_date (arg_start_date args)) (object_start_date object)"
    and "E \<equiv> effective_date (supplied_date (arg_end_date args)) (object_end_date object)"
  shows "(\<not> validateDateRange newDate S E \<longrightarrow>
            snd (handleUpdateObject newDate db args) = db \<and>
            (\<forall>u. objectUpdateData db args project object = Inr u \<longrightarrow>
                 fst (handleUpdateObject newDate db args) = InvertedRange)) \<and>
         (snd (handleUpdateObject newDate db args) \<noteq> db \<longrightarrow>
            validateDateRange newDate S E \<and>
            (\<forall>ob' \<in> set (objects (snd (handleUpdateObject newDate db args))).
               object_id ob' = object_id object \<longrightarrow>
               object_start_date ob' = S \<and> object_end_date ob' = E))"
proof (cases "objectUpdateData db args project object")
  case (Inl r)
  with find show ?thesis by (simp add: handleUpdateObject_def Let_def)
next
  case (Inr u)
  from objectUpdateData_fields [OF Inr] have
    f: "upd_object_id u = object_id object"
       "upd_object_start_date u = supplied_date (arg_start_date args)"
       "upd_object_end_date u = supplied_date (arg_end_date args)"
    by simp_all
  have fin: "js_or (upd_object_start_date u) (object_start_date object) = S"
    "js_or (upd_object_end_date u) (object_end_date object) = E"
    by (simp_all add: f js_or_supplied S_def E_def)
  show ?thesis
  proof (cases "validateDateRange newDate S E")
    case False
    with find Inr fin show ?thesis by (simp add: handleUpdateObject_def Let_def)
  next
    case True
    obtain res db' where upd: "updateObject db u = (res, db')"
      by (cases "updateObject db u") auto
    with find Inr fin True have snd: "snd (handleUpdateObject newDate db args) = db'"
      by (simp add: handleUpdateObject_def Let_def)
    have "\<forall>ob' \<in> set (objects db'). object_id ob' = object_id object \<longrightarrow>
            object_start_date ob' = S \<and> object_end_date ob' = E" if ne: "db' \<noteq> db"
    proof (intro ballI impI)
      fix ob' assume m: "ob' \<in> set (objects db')" and i: "object_id ob' = object_id object"
      from updateObject_effect [OF upd] ne obtain x where
        x: "filter (\<lambda>ob. object_id ob = object_id object) (objects db) = [x]" and
        d: "objects db' = map (\<lambda>ob. if object_id ob = object_id object
                                      then apply_object_update u ob else ob) (objects db)"
        by (auto simp: f)
      from handleUpdateObject_find_mem [OF find]
      have "object \<in> set (filter (\<lambda>ob. object_id ob = object_id object) (objects db))"
        by simp
      then have xo: "x = object" unfolding x by simp
      from m d obtain ob where ob: "ob \<in> set (objects db)"
        "ob' = (if object_id ob = object_id object then apply_object_update u ob else ob)"
        by auto
      have "object_id ob = object_id object"
        using ob(2) i by (auto simp: apply_object_update_row split: if_splits)
      then have "ob \<in> set (filter (\<lambda>ob. object_id ob = object_id object) (objects db))"
        using ob(1) by simp
      then have "ob = object" unfolding x xo by simp
      then have "ob' = apply_object_update u object" using ob(2) by simp
      then show "object_start_date ob' = S \<and> object_end_date ob' = E"
        by (simp add: apply_object_update_row f S_def E_def)
    qed
    with True snd show ?thesis by simp
  qed
qed

lemma handleUpdateSection_range:
  assumes find: "handleUpdateSection_find db args = Inr section"
  defines "S \<equiv> effective_date (supplied_date (arg_start_date args)) (section_start_date section)"
    and "E \<equiv> effective_date (supplied_date (arg_end_date args)) (section_end_date section)"
  shows "(\<not> validateDateRange newDate S E \<longrightarrow>
            snd (handleUpdateSection newDate db args) = db \<and>
            (\<forall>u. sectionUpdateData db args section = Inr u \<longrightarrow>
                 fst (handleUpdateSection newDate db args) = InvertedRange)) \<and>
         (snd (handleUpdateSection newDate db args) \<noteq> db \<longrightarrow>
            validateDateRange newDate S E \<and>
            (\<forall>row' \<in> set (sections (snd (handleUpdateSection newDate db args))).
               section_id row' = section_id section \<longrightarrow>
               section_start_date row' = S \<and> section_end_date row' = E))"
proof (cases "sectionUpdateData db args section")
  case (Inl r)
  with find show ?thesis by (simp add: handleUpdateSection_def Let_def)
next
  case (Inr u)
  from sectionUpdateData_fields [OF Inr] have
    f: "upd_section_id u = section_id section"
       "upd_section_start_date u = supplied_date (arg_start_date args)"
       "upd_section_end_date u = supplied_date (arg_end_date args)"
    by simp_all
  have fin: "js_or (upd_section_start_date u) (section_start_date section) = S"
    "js_or (upd_section_end_date u) (section_end_date section) = E"
    by (simp_all add: f js_or_supplied S_def E_def)
  show ?thesis
  proof (cases "validateDateRange newDate S E")
    case False
    with find Inr fin show ?thesis by (simp add: handleUpdateSection_def Let_def)
  next
    case True
    obtain res db' where upd: "updateSection db u = (res, db')"
      by (cases "updateSection db u") auto
    with find Inr fin True have snd: "snd (handleUpdateSection newDate db args) = db'"
      by (simp add: handleUpdateSection_def Let_def)
    have "\<forall>row' \<in> set (sections db'). section_id row' = section_id section \<longrightarrow>
            section_start_date row' = S \<and> section_end_date row' = E" if ne: "db' \<noteq> db"
    proof (intro ballI impI)
      fix row' assume m: "row' \<in> set (sections db')" and i: "section_id row' = section_id section"
      from updateSection_effect [OF upd] ne obtain x where
        x: "filter (\<lambda>s. section_id s = section_id section) (sections db) = [x]" and
        d: "sections db' = map (\<lambda>s. if section_id s = section_id section
                                       then apply_section_update u s else s) (sections db)"
        by (auto simp: f)
      from handleUpdateSection_find_mem [OF find]
      have "section \<in> set (filter (\<lambda>s. section_id s = section_id section) (sections db))"
        by simp
      then have xo: "x = section" unfolding x by simp
      from m d obtain row where row: "row \<in> set (sections db)"
        "row' = (if section_id row = section_id section then apply_section_update u row else row)"
        by auto
      have "section_id row = section_id section"
        using row(2) i by (auto simp: apply_section_update_row split: if_splits)
      then have "row \<in> set (filter (\<lambda>s. section_id s = section_id section) (sections db))"
        using row(1) by simp
      then have "row = section" unfolding x xo by simp
      then have "row' = apply_section_update u section" using row(2) by simp
      then show "section_start_date row' = S \<and> section_end_date row' = E"
        by (simp add: apply_section_update_row f S_def E_def)
    qed
    with True snd show ?thesis by simp
  qed
qed

text \<open>
  C6. An update of an object or a section checks the range on the effective pair: the
  date the request supplies where there is one, otherwise the date stored for the entity
  found. When the effective pair fails the check the store is returned as it was, and the
  reply is the inverted-range text once the other fields of the update are accepted. A
  store that differs after the update holds, for the entity, exactly the effective pair,
  and that pair passed the check. This holds however the runtime reads a date text
  (\<open>newDate\<close> is any function): an effective start that it reads as later than the
  effective end fails the check, and two dates that pass it are both read, the start not
  later than the end.
\<close>

theorem effective_range_check:
  "(handleUpdateObject_find db args = Inr (project, object) \<longrightarrow>
      (\<not> validateDateRange newDate
            (effective_date (supplied_date (arg_start_date args)) (object_start_date object))
            (effective_date (supplied_date (arg_end_date args)) (object_end_date object)) \<longrightarrow>
         snd (handleUpdateObject newDate db args) = db \<and>
         (\<forall>u. objectUpdateData db args project object = Inr u \<longrightarrow>
              fst (handleUpdateObject newDate db args) = InvertedRange)) \<and>
      (snd (handleUpdateObject newDate db args) \<noteq> db \<longrightarrow>
         validateDateRange newDate
           (effective_date (supplied_date (arg_start_date args)) (object_start_date object))
           (effective_date (supplied_date (arg_end_date args)) (object_end_date object)) \<and>
         (\<forall>ob' \<in> set (objects (snd (handleUpdateObject newDate db args))).
            object_id ob' = object_id object \<longrightarrow>
            object_start_date ob'
              = effective_date (supplied_date (arg_start_date args)) (object_start_date object) \<and>
            object_end_date ob'
              = effective_date (supplied_date (arg_end_date args)) (object_end_date object)))) \<and>
   (handleUpdateSection_find db args = Inr section \<longrightarrow>
      (\<not> validateDateRange newDate
            (effective_date (supplied_date (arg_start_date args)) (section_start_date section))
            (effective_date (supplied_date (arg_end_date args)) (section_end_date section)) \<longrightarrow>
         snd (handleUpdateSection newDate db args) = db \<and>
         (\<forall>u. sectionUpdateData db args section = Inr u \<longrightarrow>
              fst (handleUpdateSection newDate db args) = InvertedRange)) \<and>
      (snd (handleUpdateSection newDate db args) \<noteq> db \<longrightarrow>
         validateDateRange newDate
           (effective_date (supplied_date (arg_start_date args)) (section_start_date section))
           (effective_date (supplied_date (arg_end_date args)) (section_end_date section)) \<and>
         (\<forall>row' \<in> set (sections (snd (handleUpdateSection newDate db args))).
            section_id row' = section_id section \<longrightarrow>
            section_start_date row'
              = effective_date (supplied_date (arg_start_date args)) (section_start_date section) \<and>
            section_end_date row'
              = effective_date (supplied_date (arg_end_date args)) (section_end_date section)))) \<and>
   (\<forall>s e a b. s \<noteq> [] \<longrightarrow> e \<noteq> [] \<longrightarrow> newDate s = Some a \<longrightarrow> newDate e = Some b \<longrightarrow> b < a \<longrightarrow>
      \<not> validateDateRange newDate (Some s) (Some e)) \<and>
   (\<forall>s e. s \<noteq> [] \<longrightarrow> e \<noteq> [] \<longrightarrow> validateDateRange newDate (Some s) (Some e) \<longrightarrow>
      (\<exists>a b. newDate s = Some a \<and> newDate e = Some b \<and> a \<le> b))"
proof (intro conjI)
  show "\<forall>s e a b. s \<noteq> [] \<longrightarrow> e \<noteq> [] \<longrightarrow> newDate s = Some a \<longrightarrow> newDate e = Some b \<longrightarrow> b < a \<longrightarrow>
      \<not> validateDateRange newDate (Some s) (Some e)"
    by (simp add: validateDateRange_def)
  show "\<forall>s e. s \<noteq> [] \<longrightarrow> e \<noteq> [] \<longrightarrow> validateDateRange newDate (Some s) (Some e) \<longrightarrow>
      (\<exists>a b. newDate s = Some a \<and> newDate e = Some b \<and> a \<le> b)"
    by (auto simp: validateDateRange_def split: option.splits)
qed (use handleUpdateObject_range [of db args project object]
       handleUpdateSection_range [of db args "section"] in blast)+

lemmas eval_date = parseDate_def js_trim_def is_ws_def dateRegex_def is_digit_def parseInt10_def
  digit_val_def padStart2_def Let_def

lemma supplied_feb: "supplied_date (Some ''01.02.2024'') = Some ''2024-02-01''"
  by (simp add: supplied_date_def truthy_def String_def eval_date)

lemma supplied_dec: "supplied_date (Some ''31.12.2024'') = Some ''2024-12-31''"
  by (simp add: supplied_date_def truthy_def String_def eval_date)

lemma supplied_jul: "supplied_date (Some ''01.07.2024'') = Some ''2024-07-01''"
  by (simp add: supplied_date_def truthy_def String_def eval_date)

lemma supplied_none: "supplied_date None = None"
  by (simp add: supplied_date_def truthy_def)

lemmas eval_range = validateDateRange_def iso_date_def days_from_civil_def is_digit_def
  digit_val_def Let_def

lemma range_mar_feb: "\<not> validateDateRange iso_date (Some ''2024-03-01'') (Some ''2024-02-01'')"
  by (simp add: eval_range)

lemma range_mar_dec: "validateDateRange iso_date (Some ''2024-03-01'') (Some ''2024-12-31'')"
  by (simp add: eval_range)

lemma range_jul_jun: "\<not> validateDateRange iso_date (Some ''2024-07-01'') (Some ''2024-06-30'')"
  by (simp add: eval_range)

lemma tower_project_exact: "findProjectByNameExact tower_store ''Tower A'' = Some tower_project"
  by (simp add: findProjectByNameExact_def trim_Tower respond_def single_def orNull_def
        tower_defs)

lemma tower_block_exact:
  "findObjectByNameExact tower_store ''Block 1'' (project_id tower_project) None = Some block_object"
  by (simp add: findObjectByNameExact_def trim_Block respond_def single_def orNull_def
        tower_defs)

lemma tower_rebar_exact:
  "findSectionByNameExact tower_store ''Rebar Plan'' (project_id tower_project) None
     = Some rebar_section"
  by (simp add: findSectionByNameExact_def trim_Rebar respond_def single_def orNull_def
        tower_defs)

lemma find_block:
  "handleUpdateObject_find tower_store shorten_block = Inr (tower_project, block_object)"
  "handleUpdateObject_find tower_store extend_block = Inr (tower_project, block_object)"
  by (simp_all add: handleUpdateObject_find_def shorten_block_def extend_block_def no_args_def
        String_def truthy_def trim_Tower trim_Block tower_project_exact tower_block_exact Let_def)

lemma find_rebar: "handleUpdateSection_find tower_store delay_rebar = Inr rebar_section"
  by (simp add: handleUpdateSection_find_def delay_rebar_def no_args_def
        String_def truthy_def trim_Tower trim_Rebar tower_project_exact tower_rebar_exact Let_def)

lemma shorten_data:
  "objectUpdateData tower_store shorten_block tower_project block_object
     = Inr \<lparr> upd_object_id = 3, upd_object_name = None, upd_object_description = None,
             upd_object_stage_id = None, upd_object_project_id = None,
             upd_object_responsible = None, upd_object_start_date = None,
             upd_object_end_date = Some ''2024-02-01'' \<rparr>"
  by (simp add: objectUpdateData_def shorten_block_def no_args_def String_def truthy_def
        block_object_def eval_date)

lemma delay_data:
  "sectionUpdateData tower_store delay_rebar rebar_section
     = Inr \<lparr> upd_section_id = 4, upd_section_name = None, upd_section_description = None,
             upd_section_object_id = None, upd_section_project_id = None,
             upd_section_type = None, upd_section_responsible = None,
             upd_section_start_date = Some ''2024-07-01'', upd_section_end_date = None \<rparr>"
  by (simp add: sectionUpdateData_def delay_rebar_def no_args_def String_def truthy_def
        rebar_section_def eval_date)

lemma extend_result:
  "objects (snd (handleUpdateObject iso_date tower_store extend_block))
     = [block_object\<lparr> object_end_date := Some ''2024-12-31'' \<rparr>]"
proof -
  have d: "objectUpdateData tower_store extend_block tower_project block_object
     = Inr \<lparr> upd_object_id = 3, upd_object_name = None, upd_object_description = None,
             upd_object_stage_id = None, upd_object_project_id = None,
             upd_object_responsible = None, upd_object_start_date = None,
             upd_object_end_date = Some ''2024-12-31'' \<rparr>"
    by (simp add: objectUpdateData_def extend_block_def shorten_block_def no_args_def String_def
          truthy_def block_object_def eval_date)
  have r: "validateDateRange iso_date (js_or None (object_start_date block_object))
             (js_or (Some ''2024-12-31'') (object_end_date block_object))"
    using range_mar_dec by (simp add: js_or_def truthy_def block_object_def)
  show ?thesis
    by (simp add: handleUpdateObject_def find_block d r Let_def)
       (simp add: updateObject_def validateObjectExists_def respond_def single_def
          apply_object_update_def or_else_def or_keep_def tower_defs)
qed

theorem effective_range_check_witness:
  "handleUpdateObject_find tower_store shorten_block = Inr (tower_project, block_object) \<and>
   handleUpdateObject iso_date tower_store shorten_block = (InvertedRange, tower_store) \<and>
   handleUpdateObject_find tower_store extend_block = Inr (tower_project, block_object) \<and>
   snd (handleUpdateObject iso_date tower_store extend_block) \<noteq> tower_store \<and>
   map object_id (objects (snd (handleUpdateObject iso_date tower_store extend_block))) = [3] \<and>
   map object_start_date (objects (snd (handleUpdateObject iso_date tower_store extend_block)))
     = [Some ''2024-03-01''] \<and>
   map object_end_date (objects (snd (handleUpdateObject iso_date tower_store extend_block)))
     = [Some ''2024-12-31''] \<and>
   handleUpdateSection_find tower_store delay_rebar = Inr rebar_section \<and>
   handleUpdateSection iso_date tower_store delay_rebar = (InvertedRange, tower_store)"
proof -
  have a: "supplied_date (arg_start_date shorten_block) = None"
    "supplied_date (arg_end_date shorten_block) = Some ''2024-02-01''"
    "supplied_date (arg_start_date extend_block) = None"
    "supplied_date (arg_end_date extend_block) = Some ''2024-12-31''"
    "supplied_date (arg_start_date delay_rebar) = Some ''2024-07-01''"
    "supplied_date (arg_end_date delay_rebar) = None"
    by (simp_all add: shorten_block_def extend_block_def delay_rebar_def no_args_def
          supplied_feb supplied_dec supplied_jul supplied_none)
  have st: "object_start_date block_object = Some ''2024-03-01''"
    "object_end_date block_object = Some ''2024-06-30''" "object_id block_object = 3"
    "section_start_date rebar_section = Some ''2024-03-01''"
    "section_end_date rebar_section = Some ''2024-06-30''"
    by (simp_all add: block_object_def rebar_section_def)
  from effective_range_check [of tower_store shorten_block tower_project block_object iso_date rebar_section]
    find_block(1) shorten_data range_mar_feb
  have 1: "handleUpdateObject iso_date tower_store shorten_block = (InvertedRange, tower_store)"
    by (simp add: a st effective_date_def prod_eq_iff)
  have ne: "snd (handleUpdateObject iso_date tower_store extend_block) \<noteq> tower_store"
  proof
    assume "snd (handleUpdateObject iso_date tower_store extend_block) = tower_store"
    then have "objects (snd (handleUpdateObject iso_date tower_store extend_block)) = objects tower_store"
      by simp
    then have "[block_object\<lparr> object_end_date := Some ''2024-12-31'' \<rparr>] = objects tower_store"
      by (simp only: extend_result)
    then show False by (simp add: tower_defs)
  qed
  from effective_range_check [of tower_store extend_block tower_project block_object iso_date rebar_section]
    find_block(2) ne
  have 2: "\<forall>ob' \<in> set (objects (snd (handleUpdateObject iso_date tower_store extend_block))).
      object_id ob' = 3 \<longrightarrow>
      object_start_date ob' = Some ''2024-03-01'' \<and> object_end_date ob' = Some ''2024-12-31''"
    by (simp add: a st effective_date_def)
  from effective_range_check [of tower_store delay_rebar tower_project block_object iso_date rebar_section]
    find_rebar delay_data range_jul_jun
  have 3: "handleUpdateSection iso_date tower_store delay_rebar = (InvertedRange, tower_store)"
    by (simp add: a st effective_date_def prod_eq_iff)
  have ids: "map object_id (objects (snd (handleUpdateObject iso_date tower_store extend_block))) = [3]"
    by (simp add: extend_result block_object_def)
  then obtain ob' where
    ob: "objects (snd (handleUpdateObject iso_date tower_store extend_block)) = [ob']" "object_id ob' = 3"
    by auto
  with 2 have "object_start_date ob' = Some ''2024-03-01'' \<and> object_end_date ob' = Some ''2024-12-31''"
    by simp
  with ob have 4: "map object_start_date (objects (snd (handleUpdateObject iso_date tower_store extend_block)))
     = [Some ''2024-03-01'']"
    "map object_end_date (objects (snd (handleUpdateObject iso_date tower_store extend_block)))
     = [Some ''2024-12-31'']"
    by simp_all
  from find_block find_rebar 1 ne ids 4 3 show ?thesis by simp
qed

section \<open>Renames\<close>

lemma find_object_ignores_new_name:
  "handleUpdateObject_find db (args\<lparr>arg_new_name := x\<rparr>) = handleUpdateObject_find db args"
  by (simp add: handleUpdateObject_find_def Let_def cong: option.case_cong if_cong)

lemma find_section_ignores_new_name:
  "handleUpdateSection_find db (args\<lparr>arg_new_name := x\<rparr>) = handleUpdateSection_find db args"
  by (simp add: handleUpdateSection_find_def Let_def cong: option.case_cong if_cong)

lemma objectUpdateData_same_name:
  assumes "js_trim (String (arg_new_name args)) = js_trim (String (arg_current_name args))"
  shows "objectUpdateData db args p ob = objectUpdateData db (args\<lparr>arg_new_name := None\<rparr>) p ob"
  using assms by (simp add: objectUpdateData_def truthy_def Let_def cong: if_cong)

lemma sectionUpdateData_same_name:
  assumes "js_trim (String (arg_new_name args)) = js_trim (String (arg_current_name args))"
  shows "sectionUpdateData db args s = sectionUpdateData db (args\<lparr>arg_new_name := None\<rparr>) s"
  using assms by (simp add: sectionUpdateData_def truthy_def Let_def cong: if_cong)

lemma objectUpdateData_no_conflict:
  assumes "\<not> (truthy (arg_new_name args) \<and>
              js_trim (String (arg_new_name args)) \<noteq> js_trim (String (arg_current_name args)) \<and>
              validateUniqueObjectByNameForUpdate db (js_trim (String (arg_new_name args)))
                (object_stage_id ob) (object_id ob) = Duplicate)"
  shows "objectUpdateData db args p ob \<noteq> Inl (ObjectDuplicateInStage n)"
  using assms by (auto simp: objectUpdateData_def Let_def split: if_splits)

lemma sectionUpdateData_no_conflict:
  assumes "\<not> (truthy (arg_new_name args) \<and>
              js_trim (String (arg_new_name args)) \<noteq> js_trim (String (arg_current_name args)) \<and>
              validateUniqueSectionByNameForUpdate db (js_trim (String (arg_new_name args)))
                (section_object_id s) (section_id s) = Duplicate)"
  shows "sectionUpdateData db args s \<noteq> Inl (SectionDuplicateInObject n)"
  using assms by (auto simp: sectionUpdateData_def Let_def split: if_splits)

lemma handleUpdateObject_conflict_source:
  assumes "fst (handleUpdateObject newDate db args) = ObjectDuplicateInStage n"
  shows "\<exists>p ob. handleUpdateObject_find db args = Inr (p, ob) \<and>
                objectUpdateData db args p ob = Inl (ObjectDuplicateInStage n)"
  using assms
  by (auto simp: handleUpdateObject_def handleUpdateObject_find_def Let_def
           split: sum.splits prod.splits if_splits option.splits)

lemma handleUpdateSection_conflict_source:
  assumes "fst (handleUpdateSection newDate db args) = SectionDuplicateInObject n"
  shows "\<exists>s. handleUpdateSection_find db args = Inr s \<and>
             sectionUpdateData db args s = Inl (SectionDuplicateInObject n)"
  using assms
  by (auto simp: handleUpdateSection_def handleUpdateSection_find_def Let_def
           split: sum.splits prod.splits if_splits option.splits)

lemma handleUpdateObject_same_name:
  assumes "js_trim (String (arg_new_name args)) = js_trim (String (arg_current_name args))"
  shows "handleUpdateObject newDate db args = handleUpdateObject newDate db (args\<lparr>arg_new_name := None\<rparr>)"
  by (simp add: handleUpdateObject_def find_object_ignores_new_name
        objectUpdateData_same_name [OF assms] Let_def cong: sum.case_cong prod.case_cong)

lemma handleUpdateSection_same_name:
  assumes "js_trim (String (arg_new_name args)) = js_trim (String (arg_current_name args))"
  shows "handleUpdateSection newDate db args = handleUpdateSection newDate db (args\<lparr>arg_new_name := None\<rparr>)"
  by (simp add: handleUpdateSection_def find_section_ignores_new_name
        sectionUpdateData_same_name [OF assms] Let_def cong: sum.case_cong prod.case_cong)

text \<open>
  C8. An update whose new name, trimmed, is the current name of the object or section
  found behaves exactly as the same request without a new name: the uniqueness check
  is not made, and the reply is never the name-conflict text.
\<close>

theorem rename_to_current_name:
  "(handleUpdateObject_find db args = Inr (project, object) \<longrightarrow>
    js_trim (String (arg_new_name args)) = object_name object \<longrightarrow>
      handleUpdateObject newDate db args = handleUpdateObject newDate db (args\<lparr>arg_new_name := None\<rparr>) \<and>
      (\<forall>n. fst (handleUpdateObject newDate db args) \<noteq> ObjectDuplicateInStage n)) \<and>
   (handleUpdateSection_find db args = Inr section \<longrightarrow>
    js_trim (String (arg_new_name args)) = section_name section \<longrightarrow>
      handleUpdateSection newDate db args = handleUpdateSection newDate db (args\<lparr>arg_new_name := None\<rparr>) \<and>
      (\<forall>n. fst (handleUpdateSection newDate db args) \<noteq> SectionDuplicateInObject n))"
proof (intro conjI impI allI)
  assume f: "handleUpdateObject_find db args = Inr (project, object)"
    and n: "js_trim (String (arg_new_name args)) = object_name object"
  from handleUpdateObject_find_mem [OF f] n
  have eq: "js_trim (String (arg_new_name args)) = js_trim (String (arg_current_name args))"
    by (simp add: js_trim_idem)
  then show "handleUpdateObject newDate db args = handleUpdateObject newDate db (args\<lparr>arg_new_name := None\<rparr>)"
    by (rule handleUpdateObject_same_name)
  fix m
  show "fst (handleUpdateObject newDate db args) \<noteq> ObjectDuplicateInStage m"
  proof
    assume "fst (handleUpdateObject newDate db args) = ObjectDuplicateInStage m"
    then obtain p ob where "objectUpdateData db args p ob = Inl (ObjectDuplicateInStage m)"
      using handleUpdateObject_conflict_source by blast
    with objectUpdateData_no_conflict [of args db ob p m] eq show False by simp
  qed
next
  assume f: "handleUpdateSection_find db args = Inr section"
    and n: "js_trim (String (arg_new_name args)) = section_name section"
  from handleUpdateSection_find_mem [OF f] n
  have eq: "js_trim (String (arg_new_name args)) = js_trim (String (arg_current_name args))"
    by (simp add: js_trim_idem)
  then show "handleUpdateSection newDate db args = handleUpdateSection newDate db (args\<lparr>arg_new_name := None\<rparr>)"
    by (rule handleUpdateSection_same_name)
  fix m
  show "fst (handleUpdateSection newDate db args) \<noteq> SectionDuplicateInObject m"
  proof
    assume "fst (handleUpdateSection newDate db args) = SectionDuplicateInObject m"
    then obtain s where "sectionUpdateData db args s = Inl (SectionDuplicateInObject m)"
      using handleUpdateSection_conflict_source by blast
    with sectionUpdateData_no_conflict [of args db s m] eq show False by simp
  qed
qed

lemma find_block_same:
  "handleUpdateObject_find tower_store rename_block_same = Inr (tower_project, block_object)"
  by (simp add: handleUpdateObject_find_def rename_block_same_def no_args_def
        String_def truthy_def trim_Tower trim_Block tower_project_exact tower_block_exact Let_def)

lemma find_rebar_same:
  "handleUpdateSection_find tower_store rename_rebar_same = Inr rebar_section"
  by (simp add: handleUpdateSection_find_def rename_rebar_same_def no_args_def
        String_def truthy_def trim_Tower trim_Rebar tower_project_exact tower_rebar_exact Let_def)

theorem rename_to_current_name_witness:
  "handleUpdateObject_find tower_store rename_block_same = Inr (tower_project, block_object) \<and>
   js_trim (String (arg_new_name rename_block_same)) = object_name block_object \<and>
   handleUpdateObject iso_date tower_store rename_block_same
     = handleUpdateObject iso_date tower_store (rename_block_same\<lparr>arg_new_name := None\<rparr>) \<and>
   fst (handleUpdateObject iso_date tower_store rename_block_same) \<noteq> ObjectDuplicateInStage ''Block 1'' \<and>
   handleUpdateSection_find tower_store rename_rebar_same = Inr rebar_section \<and>
   js_trim (String (arg_new_name rename_rebar_same)) = section_name rebar_section \<and>
   handleUpdateSection iso_date tower_store rename_rebar_same
     = handleUpdateSection iso_date tower_store (rename_rebar_same\<lparr>arg_new_name := None\<rparr>) \<and>
   fst (handleUpdateSection iso_date tower_store rename_rebar_same) \<noteq> SectionDuplicateInObject ''Rebar Plan''"
proof -
  have a: "js_trim (String (arg_new_name rename_block_same)) = object_name block_object"
    by (simp add: rename_block_same_def no_args_def String_def block_object_def js_trim_def
          is_ws_def)
  have b: "js_trim (String (arg_new_name rename_rebar_same)) = section_name rebar_section"
    by (simp add: rename_rebar_same_def no_args_def String_def rebar_section_def trim_Rebar)
  from rename_to_current_name [of tower_store rename_block_same tower_project block_object
      iso_date rebar_section] find_block_same a
  have 1: "handleUpdateObject iso_date tower_store rename_block_same
     = handleUpdateObject iso_date tower_store (rename_block_same\<lparr>arg_new_name := None\<rparr>)"
    "fst (handleUpdateObject iso_date tower_store rename_block_same) \<noteq> ObjectDuplicateInStage ''Block 1''"
    by blast+
  from rename_to_current_name [of tower_store rename_rebar_same tower_project block_object
      iso_date rebar_section] find_rebar_same b
  have 2: "handleUpdateSection iso_date tower_store rename_rebar_same
     = handleUpdateSection iso_date tower_store (rename_rebar_same\<lparr>arg_new_name := None\<rparr>)"
    "fst (handleUpdateSection iso_date tower_store rename_rebar_same) \<noteq> SectionDuplicateInObject ''Rebar Plan''"
    by blast+
  from find_block_same find_rebar_same a b 1 2 show ?thesis by simp
qed

lemma unique_on_error: "failing db call \<Longrightarrow> unique_or_duplicate (respond db call rows) = Unique"
  by (auto simp: failing_def respond_def unique_or_duplicate_def)

lemma objectUpdateData_renames:
  assumes "objectUpdateData db args p ob = Inr u"
    and "truthy (arg_new_name args)"
    and "js_trim (String (arg_new_name args)) \<noteq> js_trim (String (arg_current_name args))"
  shows "upd_object_name u = Some (js_trim (String (arg_new_name args)))"
  using assms by (auto simp: objectUpdateData_def Let_def split: if_splits)

lemma sectionUpdateData_renames:
  assumes "sectionUpdateData db args s = Inr u"
    and "truthy (arg_new_name args)"
    and "js_trim (String (arg_new_name args)) \<noteq> js_trim (String (arg_current_name args))"
  shows "upd_section_name u = Some (js_trim (String (arg_new_name args)))"
  using assms by (auto simp: sectionUpdateData_def Let_def split: if_splits)

text \<open>
  C10. The four uniqueness checks for a rename fail open: when the store answers the
  check's query with an error the check reports \<open>Unique\<close>. The object and section
  handlers then never reply with the name-conflict text, and the update they build
  carries the new name.
\<close>

theorem rename_checks_fail_open:
  "(failing db ''validateUniqueProjectByNameForUpdate'' \<longrightarrow>
      validateUniqueProjectByNameForUpdate db name excludeId = Unique) \<and>
   (failing db ''validateUniqueStageByNameForUpdate'' \<longrightarrow>
      validateUniqueStageByNameForUpdate db name parentId excludeId = Unique) \<and>
   (failing db ''validateUniqueObjectByNameForUpdate'' \<longrightarrow>
      validateUniqueObjectByNameForUpdate db name parentId excludeId = Unique \<and>
      (\<forall>n. fst (handleUpdateObject newDate db args) \<noteq> ObjectDuplicateInStage n) \<and>
      (\<forall>p ob u. objectUpdateData db args p ob = Inr u \<longrightarrow> truthy (arg_new_name args) \<longrightarrow>
         js_trim (String (arg_new_name args)) \<noteq> js_trim (String (arg_current_name args)) \<longrightarrow>
         upd_object_name u = Some (js_trim (String (arg_new_name args))))) \<and>
   (failing db ''validateUniqueSectionByNameForUpdate'' \<longrightarrow>
      validateUniqueSectionByNameForUpdate db name parentId excludeId = Unique \<and>
      (\<forall>n. fst (handleUpdateSection newDate db args) \<noteq> SectionDuplicateInObject n) \<and>
      (\<forall>s u. sectionUpdateData db args s = Inr u \<longrightarrow> truthy (arg_new_name args) \<longrightarrow>
         js_trim (String (arg_new_name args)) \<noteq> js_trim (String (arg_current_name args)) \<longrightarrow>
         upd_section_name u = Some (js_trim (String (arg_new_name args)))))"
proof (intro conjI impI allI)
  assume "failing db ''validateUniqueProjectByNameForUpdate''"
  then show "validateUniqueProjectByNameForUpdate db name excludeId = Unique"
    by (simp add: validateUniqueProjectByNameForUpdate_def unique_on_error)
next
  assume "failing db ''validateUniqueStageByNameForUpdate''"
  then show "validateUniqueStageByNameForUpdate db name parentId excludeId = Unique"
    by (simp add: validateUniqueStageByNameForUpdate_def unique_on_error)
next
  assume f: "failing db ''validateUniqueObjectByNameForUpdate''"
  then have u: "\<And>n a b. validateUniqueObjectByNameForUpdate db n a b = Unique"
    by (simp add: validateUniqueObjectByNameForUpdate_def unique_on_error)
  show "validateUniqueObjectByNameForUpdate db name parentId excludeId = Unique"
    by (rule u)
  { fix n
    show "fst (handleUpdateObject newDate db args) \<noteq> ObjectDuplicateInStage n"
    proof
      assume "fst (handleUpdateObject newDate db args) = ObjectDuplicateInStage n"
      then obtain p ob where "objectUpdateData db args p ob = Inl (ObjectDuplicateInStage n)"
        using handleUpdateObject_conflict_source by blast
      with objectUpdateData_no_conflict [of args db ob p n] u show False by simp
    qed }
  { fix p ob u
    assume "objectUpdateData db args p ob = Inr u" "truthy (arg_new_name args)"
      "js_trim (String (arg_new_name args)) \<noteq> js_trim (String (arg_current_name args))"
    then show "upd_object_name u = Some (js_trim (String (arg_new_name args)))"
      by (rule objectUpdateData_renames) }
next
  assume f: "failing db ''validateUniqueSectionByNameForUpdate''"
  then have u: "\<And>n a b. validateUniqueSectionByNameForUpdate db n a b = Unique"
    by (simp add: validateUniqueSectionByNameForUpdate_def unique_on_error)
  show "validateUniqueSectionByNameForUpdate db name parentId excludeId = Unique"
    by (rule u)
  { fix n
    show "fst (handleUpdateSection newDate db args) \<noteq> SectionDuplicateInObject n"
    proof
      assume "fst (handleUpdateSection newDate db args) = SectionDuplicateInObject n"
      then obtain s where "sectionUpdateData db args s = Inl (SectionDuplicateInObject n)"
        using handleUpdateSection_conflict_source by blast
      with sectionUpdateData_no_conflict [of args db s n] u show False by simp
    qed }
  { fix s u
    assume "sectionUpdateData db args s = Inr u" "truthy (arg_new_name args)"
      "js_trim (String (arg_new_name args)) \<noteq> js_trim (String (arg_current_name args))"
    then show "upd_section_name u = Some (js_trim (String (arg_new_name args)))"
      by (rule sectionUpdateData_renames) }
qed

lemmas faulty_defs = faulty_store_def block2_object_def tower_defs

lemma faulty_find:
  "handleUpdateObject_find faulty_store rename_block2 = Inr (tower_project, block2_object)"
  by (simp add: handleUpdateObject_find_def rename_block2_def no_args_def String_def truthy_def
        trim_Tower trim_Block2 findProjectByNameExact_def findObjectByNameExact_def respond_def
        single_def orNull_def faulty_defs Let_def)

lemma faulty_rename_result:
  "fst (handleUpdateObject iso_date faulty_store rename_block2)
     = ObjectUpdatedReport ''Block 2'' ''Tower A'' [NameChange ''Block 2'' ''Block 1''] \<and>
   map object_name (objects (snd (handleUpdateObject iso_date faulty_store rename_block2)))
     = [''Block 1'', ''Block 1''] \<and>
   map object_stage_id (objects (snd (handleUpdateObject iso_date faulty_store rename_block2))) = [2, 2]"
proof -
  have u: "validateUniqueObjectByNameForUpdate faulty_store ''Block 1''
             (object_stage_id block2_object) (object_id block2_object) = Unique"
    by (simp add: validateUniqueObjectByNameForUpdate_def respond_def unique_or_duplicate_def
          faulty_store_def)
  have d: "objectUpdateData faulty_store rename_block2 tower_project block2_object
     = Inr \<lparr> upd_object_id = 9, upd_object_name = Some ''Block 1'', upd_object_description = None,
             upd_object_stage_id = None, upd_object_project_id = None,
             upd_object_responsible = None, upd_object_start_date = None,
             upd_object_end_date = None \<rparr>"
    by (simp add: objectUpdateData_def rename_block2_def no_args_def String_def truthy_def
          trim_Block trim_Block2 u Let_def)
       (simp add: block2_object_def)
  have r: "validateDateRange iso_date (js_or None (object_start_date block2_object))
             (js_or None (object_end_date block2_object))"
    by (simp add: js_or_def truthy_def block2_object_def block_object_def eval_range)
  have c: "js_trim (String (arg_current_name rename_block2)) = ''Block 2''"
    "js_trim (String (arg_project_name rename_block2)) = ''Tower A''"
    by (simp_all add: rename_block2_def no_args_def String_def trim_Block2 trim_Tower)
  show ?thesis
    by (simp add: handleUpdateObject_def faulty_find d r c Let_def)
       (simp add: updateObject_def validateObjectExists_def respond_def single_def
          apply_object_update_def or_else_def or_keep_def object_changes_def truthy_def
          String_def faulty_defs)
qed

lemma answered_rename_refused:
  "fst (handleUpdateObject iso_date (faulty_store\<lparr>faults := []\<rparr>) rename_block2)
     = ObjectDuplicateInStage ''Block 1''"
proof -
  have f: "handleUpdateObject_find (faulty_store\<lparr>faults := []\<rparr>) rename_block2
             = Inr (tower_project, block2_object)"
    by (simp add: handleUpdateObject_find_def rename_block2_def no_args_def String_def truthy_def
        trim_Tower trim_Block2 findProjectByNameExact_def findObjectByNameExact_def respond_def
        single_def orNull_def faulty_defs Let_def)
  have u: "validateUniqueObjectByNameForUpdate (faulty_store\<lparr>faults := []\<rparr>) ''Block 1''
             (object_stage_id block2_object) (object_id block2_object) = Duplicate"
    by (simp add: validateUniqueObjectByNameForUpdate_def respond_def unique_or_duplicate_def
          trim_Block faulty_defs)
  have d: "objectUpdateData (faulty_store\<lparr>faults := []\<rparr>) rename_block2 tower_project block2_object
     = Inl (ObjectDuplicateInStage ''Block 1'')"
    by (simp add: objectUpdateData_def rename_block2_def no_args_def String_def truthy_def
          trim_Block trim_Block2 u Let_def)
  show ?thesis
    by (simp add: handleUpdateObject_def f d Let_def)
qed

theorem rename_checks_fail_open_witness:
  "failing faulty_store ''validateUniqueProjectByNameForUpdate'' \<and>
   failing faulty_store ''validateUniqueStageByNameForUpdate'' \<and>
   failing faulty_store ''validateUniqueObjectByNameForUpdate'' \<and>
   failing faulty_store ''validateUniqueSectionByNameForUpdate'' \<and>
   validateUniqueProjectByNameForUpdate faulty_store ''Tower A'' 0 = Unique \<and>
   validateUniqueStageByNameForUpdate faulty_store ''Foundation'' 1 0 = Unique \<and>
   validateUniqueObjectByNameForUpdate faulty_store ''Block 1'' 2 9 = Unique \<and>
   validateUniqueSectionByNameForUpdate faulty_store ''Rebar Plan'' 3 0 = Unique \<and>
   fst (handleUpdateObject iso_date faulty_store rename_block2)
     = ObjectUpdatedReport ''Block 2'' ''Tower A'' [NameChange ''Block 2'' ''Block 1''] \<and>
   map object_name (objects (snd (handleUpdateObject iso_date faulty_store rename_block2)))
     = [''Block 1'', ''Block 1''] \<and>
   fst (handleUpdateObject iso_date (faulty_store\<lparr>faults := []\<rparr>) rename_block2)
     = ObjectDuplicateInStage ''Block 1''"
proof -
  have f: "failing faulty_store ''validateUniqueProjectByNameForUpdate''"
    "failing faulty_store ''validateUniqueStageByNameForUpdate''"
    "failing faulty_store ''validateUniqueObjectByNameForUpdate''"
    "failing faulty_store ''validateUniqueSectionByNameForUpdate''"
    by (simp_all add: failing_def faulty_store_def)
  from rename_checks_fail_open [of faulty_store "''Tower A''" 0 1 iso_date rename_block2] f
  have 1: "validateUniqueProjectByNameForUpdate faulty_store ''Tower A'' 0 = Unique"
    "validateUniqueStageByNameForUpdate faulty_store ''Tower A'' 1 0 = Unique"
    by blast+
  from rename_checks_fail_open [of faulty_store "''Foundation''" 0 1 iso_date rename_block2] f
  have 2: "validateUniqueStageByNameForUpdate faulty_store ''Foundation'' 1 0 = Unique"
    by blast
  from rename_checks_fail_open [of faulty_store "''Block 1''" 9 2 iso_date rename_block2] f
  have 3: "validateUniqueObjectByNameForUpdate faulty_store ''Block 1'' 2 9 = Unique"
    by blast
  from rename_checks_fail_open [of faulty_store "''Rebar Plan''" 0 3 iso_date rename_block2] f
  have 4: "validateUniqueSectionByNameForUpdate faulty_store ''Rebar Plan'' 3 0 = Unique"
    by blast
  from f 1(1) 2 3 4 faulty_rename_result answered_rename_refused show ?thesis by simp
qed

section \<open>Ambiguous references\<close>

lemma classify_two: "1 < length rows \<Longrightarrow> classify (Data rows) = MultipleFound"
  by (cases rows) (auto simp: classify_def)

lemma single_two: "1 < length rows \<Longrightarrow> orNull (single (respond db call rows)) = None"
  by (cases rows) (auto simp: respond_def single_def orNull_def split: option.splits)

lemma several_projects:
  assumes "map_of (faults db) ''validateUniqueProjectByName'' = None"
    and "1 < length (filter (\<lambda>p. project_name p = n) (projects db))"
  shows "validateUniqueProjectByName db n = MultipleFound"
  using assms by (simp add: validateUniqueProjectByName_def respond_def classify_two)

lemma several_stages:
  assumes "map_of (faults db) ''validateUniqueStageByName'' = None"
    and "1 < length (filter (\<lambda>s. stage_name s = n \<and> stage_project_id s = pid) (stages db))"
  shows "validateUniqueStageByName db n pid = MultipleFound"
  using assms by (simp add: validateUniqueStageByName_def respond_def classify_two)

lemma several_objects:
  assumes "map_of (faults db) ''validateUniqueObjectByName'' = None"
    and "1 < length (filter (\<lambda>ob. object_name ob = n) (objects db))"
  shows "validateUniqueObjectByName db n None = MultipleFound"
  using assms by (simp add: validateUniqueObjectByName_def respond_def classify_two)

lemma several_objects_in_stage:
  assumes "map_of (faults db) ''validateUniqueObjectByName'' = None"
    and "1 < length (filter (\<lambda>ob. object_name ob = n \<and> object_stage_id ob = sid) (objects db))"
  shows "validateUniqueObjectByName db n (Some sid) = MultipleFound"
  using assms by (simp add: validateUniqueObjectByName_def respond_def classify_two)

lemma several_projects_exact:
  assumes "1 < length (filter (\<lambda>p. project_name p = requested x) (projects db))"
  shows "findProjectByNameExact db (requested x) = None"
  using assms
  by (simp add: findProjectByNameExact_def requested_def js_trim_idem single_two)

lemma several_stages_exact:
  assumes "1 < length (filter (\<lambda>s. stage_name s = requested x \<and> stage_project_id s = pid)
                         (stages db))"
  shows "findStageByNameExact db (requested x) pid = None"
  using assms
  by (simp add: findStageByNameExact_def requested_def js_trim_idem single_two)

lemma several_objects_exact:
  assumes "1 < length (filter (\<lambda>ob. object_name ob = requested x \<and> object_project_id ob = pid)
                         (objects db))"
  shows "findObjectByNameExact db (requested x) pid None = None"
  using assms
  by (simp add: findObjectByNameExact_def requested_def js_trim_idem single_two)

lemma several_objects_exact_in:
  assumes "1 < length (filter (\<lambda>ob. object_name ob = requested x \<and> object_project_id ob = pid \<and>
                                      object_stage_id ob = sid) (objects db))"
  shows "findObjectByNameExact db (requested x) pid (Some sid) = None"
  using assms
  by (simp add: findObjectByNameExact_def requested_def js_trim_idem single_two)

lemma ambiguous_project:
  "map_of (faults db) ''validateUniqueProjectByName'' = None \<longrightarrow>
   1 < length (filter (\<lambda>p. project_name p = requested (arg_project_name args)) (projects db)) \<longrightarrow>
     handleCreateObject newDate db args
       = (SeveralProjectsUseSearch (requested (arg_project_name args)), db) \<and>
     (truthy (arg_project_name args) \<longrightarrow>
        handleSearchObjects_resolve db args
          = Inl (SeveralProjects (String (arg_project_name args))))"
  by (simp add: handleCreateObject_def handleSearchObjects_resolve_def several_projects
        requested_def)

lemma ambiguous_stage:
  "\<forall>p. validateUniqueProjectByName db (requested (arg_project_name args)) = Found p \<longrightarrow>
     map_of (faults db) ''validateUniqueStageByName'' = None \<longrightarrow>
     1 < length (filter (\<lambda>s. stage_name s = requested (arg_stage_name args) \<and>
                               stage_project_id s = project_id p) (stages db)) \<longrightarrow>
       handleCreateObject newDate db args
         = (SeveralStagesIn (project_name p) (requested (arg_stage_name args)), db) \<and>
       (truthy (arg_project_name args) \<longrightarrow> truthy (arg_stage_name args) \<longrightarrow>
          handleSearchObjects_resolve db args
            = Inl (SeveralStagesInProject (String (arg_stage_name args))))"
  by (simp add: handleCreateObject_def handleSearchObjects_resolve_def several_stages
        requested_def)

lemma ambiguous_object_in_stage:
  "\<forall>p s. validateUniqueProjectByName db (requested (arg_project_name args)) = Found p \<longrightarrow>
     validateUniqueStageByName db (requested (arg_stage_name args)) (project_id p) = Found s \<longrightarrow>
     map_of (faults db) ''validateUniqueObjectByName'' = None \<longrightarrow>
     1 < length (filter (\<lambda>ob. object_name ob = requested (arg_object_name args) \<and>
                                object_stage_id ob = stage_id s) (objects db)) \<longrightarrow>
       handleCreateObject newDate db args
         = (SeveralObjectsInStage (stage_name s) (requested (arg_object_name args)), db)"
  by (simp add: handleCreateObject_def several_objects_in_stage requested_def)

lemma ambiguous_object_of_section:
  "map_of (faults db) ''validateUniqueObjectByName'' = None \<longrightarrow>
   1 < length (filter (\<lambda>ob. object_name ob = requested (arg_object_name args)) (objects db)) \<longrightarrow>
     handleCreateSection newDate db args
       = (SeveralObjectsUseSearch (requested (arg_object_name args)), db)"
  by (simp add: handleCreateSection_def several_objects requested_def)

lemma ambiguous_project_update:
  "1 < length (filter (\<lambda>p. project_name p = requested (arg_project_name args)) (projects db)) \<longrightarrow>
     handleUpdateObject newDate db args
       = (ProjectNameNotFound (requested (arg_project_name args)), db) \<and>
     handleUpdateSection newDate db args
       = (ProjectNameNotFound (requested (arg_project_name args)), db)"
proof
  assume "1 < length (filter (\<lambda>p. project_name p = requested (arg_project_name args)) (projects db))"
  then have "findProjectByNameExact db (requested (arg_project_name args)) = None"
    by (rule several_projects_exact)
  then show "handleUpdateObject newDate db args
       = (ProjectNameNotFound (requested (arg_project_name args)), db) \<and>
     handleUpdateSection newDate db args
       = (ProjectNameNotFound (requested (arg_project_name args)), db)"
    by (simp add: handleUpdateObject_def handleUpdateObject_find_def
          handleUpdateSection_def handleUpdateSection_find_def requested_def)
qed

lemma ambiguous_update:
  "\<forall>p. findProjectByNameExact db (requested (arg_project_name args)) = Some p \<longrightarrow>
     (truthy (arg_stage_name args) \<longrightarrow>
      1 < length (filter (\<lambda>s. stage_name s = requested (arg_stage_name args) \<and>
                                stage_project_id s = project_id p) (stages db)) \<longrightarrow>
        handleUpdateObject newDate db args
          = (StageNameNotFoundIn (String (arg_stage_name args))
               (requested (arg_project_name args)), db)) \<and>
     (\<not> truthy (arg_stage_name args) \<longrightarrow>
      1 < length (filter (\<lambda>ob. object_name ob = requested (arg_current_name args) \<and>
                                 object_project_id ob = project_id p) (objects db)) \<longrightarrow>
        handleUpdateObject newDate db args
          = (ObjectNotFoundIn (requested (arg_current_name args))
               (requested (arg_project_name args)), db)) \<and>
     (\<forall>s. truthy (arg_stage_name args) \<longrightarrow>
        findStageByNameExact db (requested (arg_stage_name args)) (project_id p) = Some s \<longrightarrow>
        1 < length (filter (\<lambda>ob. object_name ob = requested (arg_current_name args) \<and>
                                   object_project_id ob = project_id p \<and>
                                   object_stage_id ob = stage_id s) (objects db)) \<longrightarrow>
          handleUpdateObject newDate db args
            = (ObjectNotFoundIn (requested (arg_current_name args))
                 (requested (arg_project_name args)), db)) \<and>
     (truthy (arg_object_name args) \<longrightarrow>
      1 < length (filter (\<lambda>ob. object_name ob = requested (arg_object_name args) \<and>
                                 object_project_id ob = project_id p) (objects db)) \<longrightarrow>
        handleUpdateSection newDate db args
          = (ObjectNotFoundIn (String (arg_object_name args))
               (requested (arg_project_name args)), db))"
proof (intro allI impI conjI)
  fix p
  assume p: "findProjectByNameExact db (requested (arg_project_name args)) = Some p"
  {
    assume "truthy (arg_stage_name args)"
      and "1 < length (filter (\<lambda>s. stage_name s = requested (arg_stage_name args) \<and>
                                stage_project_id s = project_id p) (stages db))"
    with p several_stages_exact [of "arg_stage_name args" "project_id p" db]
    show "handleUpdateObject newDate db args
          = (StageNameNotFoundIn (String (arg_stage_name args))
               (requested (arg_project_name args)), db)"
      by (simp add: handleUpdateObject_def handleUpdateObject_find_def requested_def)
  }
  {
    assume "\<not> truthy (arg_stage_name args)"
      and "1 < length (filter (\<lambda>ob. object_name ob = requested (arg_current_name args) \<and>
                                 object_project_id ob = project_id p) (objects db))"
    with p several_objects_exact [of "arg_current_name args" "project_id p" db]
    show "handleUpdateObject newDate db args
          = (ObjectNotFoundIn (requested (arg_current_name args))
               (requested (arg_project_name args)), db)"
      by (simp add: handleUpdateObject_def handleUpdateObject_find_def requested_def)
  }
  {
    fix s
    assume "truthy (arg_stage_name args)"
      and "findStageByNameExact db (requested (arg_stage_name args)) (project_id p) = Some s"
      and "1 < length (filter (\<lambda>ob. object_name ob = requested (arg_current_name args) \<and>
                              object_project_id ob = project_id p \<and>
                              object_stage_id ob = stage_id s) (objects db))"
    with p several_objects_exact_in [of "arg_current_name args" "project_id p" "stage_id s" db]
    show "handleUpdateObject newDate db args
          = (ObjectNotFoundIn (requested (arg_current_name args))
               (requested (arg_project_name args)), db)"
      by (simp add: handleUpdateObject_def handleUpdateObject_find_def requested_def)
  }
  {
    assume "truthy (arg_object_name args)"
      and "1 < length (filter (\<lambda>ob. object_name ob = requested (arg_object_name args) \<and>
                                 object_project_id ob = project_id p) (objects db))"
    with p several_objects_exact [of "arg_object_name args" "project_id p" db]
    show "handleUpdateSection newDate db args
          = (ObjectNotFoundIn (String (arg_object_name args))
               (requested (arg_project_name args)), db)"
      by (simp add: handleUpdateSection_def handleUpdateSection_find_def requested_def)
  }
qed

lemma ambiguous_section_filter:
  "\<not> truthy (arg_responsible_name args) \<longrightarrow>
     (\<forall>p q rest. truthy (arg_project_name args) \<longrightarrow>
        searchProjectsByName db (requested (arg_project_name args)) = p # q # rest \<longrightarrow>
        (\<exists>filters. handleSearchSections_filters db args = Inr filters \<and>
                   flt_project_id filters = Some (project_id p))) \<and>
     (\<forall>ob ob' rest. truthy (arg_object_name args) \<longrightarrow>
        searchObjectsByName db (requested (arg_object_name args)) None = ob # ob' # rest \<longrightarrow>
        (\<exists>filters. handleSearchSections_filters db args = Inr filters \<and>
                   flt_object_id filters = Some (object_id ob)))"
  by (simp add: handleSearchSections_filters_def requested_def Let_def)

text \<open>
  C2 as the code has it. When a project, stage or object name matches more than one row
  (and the store answers the lookup), no reply lists the candidates.

  \<^item> Create-object and search-objects, several projects of the name: the request is
    aborted with the store as it was; the reply is the several-projects text and quotes
    the queried name alone.
  \<^item> Several stages of the name in the project found: create-object answers with the
    several-stages text, which quotes the project's name and the stage name given;
    search-objects answers with its own several-stages text, which quotes the stage name
    alone.
  \<^item> Create-object, several objects of the name in the stage found: the reply says that
    several objects of that name exist in the stage and asks for another name.
  \<^item> Create-section, several objects of the name (in any stage): the reply is the
    several-objects text for the name.
  \<^item> Update-object and update-section look up exactly one row: a project, stage or object
    name that matches several rows is answered with the not-found text of that reference.
  \<^item> Search-sections does not abort: of several projects, or objects, that match the name
    it takes the first as its filter.
\<close>

theorem ambiguous_reference_reply:
  "(map_of (faults db) ''validateUniqueProjectByName'' = None \<longrightarrow>
    1 < length (filter (\<lambda>p. project_name p = requested (arg_project_name args)) (projects db)) \<longrightarrow>
      handleCreateObject newDate db args
        = (SeveralProjectsUseSearch (requested (arg_project_name args)), db) \<and>
      (truthy (arg_project_name args) \<longrightarrow>
         handleSearchObjects_resolve db args
           = Inl (SeveralProjects (String (arg_project_name args))))) \<and>
   (\<forall>p. validateUniqueProjectByName db (requested (arg_project_name args)) = Found p \<longrightarrow>
      map_of (faults db) ''validateUniqueStageByName'' = None \<longrightarrow>
      1 < length (filter (\<lambda>s. stage_name s = requested (arg_stage_name args) \<and>
                                stage_project_id s = project_id p) (stages db)) \<longrightarrow>
        handleCreateObject newDate db args
          = (SeveralStagesIn (project_name p) (requested (arg_stage_name args)), db) \<and>
        (truthy (arg_project_name args) \<longrightarrow> truthy (arg_stage_name args) \<longrightarrow>
           handleSearchObjects_resolve db args
             = Inl (SeveralStagesInProject (String (arg_stage_name args))))) \<and>
   (\<forall>p s. validateUniqueProjectByName db (requested (arg_project_name args)) = Found p \<longrightarrow>
      validateUniqueStageByName db (requested (arg_stage_name args)) (project_id p) = Found s \<longrightarrow>
      map_of (faults db) ''validateUniqueObjectByName'' = None \<longrightarrow>
      1 < length (filter (\<lambda>ob. object_name ob = requested (arg_object_name args) \<and>
                                 object_stage_id ob = stage_id s) (objects db)) \<longrightarrow>
        handleCreateObject newDate db args
          = (SeveralObjectsInStage (stage_name s) (requested (arg_object_name args)), db)) \<and>
   (map_of (faults db) ''validateUniqueObjectByName'' = None \<longrightarrow>
    1 < length (filter (\<lambda>ob. object_name ob = requested (arg_object_name args)) (objects db)) \<longrightarrow>
      handleCreateSection newDate db args
        = (SeveralObjectsUseSearch (requested (arg_object_name args)), db)) \<and>
   (1 < length (filter (\<lambda>p. project_name p = requested (arg_project_name args)) (projects db)) \<longrightarrow>
      handleUpdateObject newDate db args
        = (ProjectNameNotFound (requested (arg_project_name args)), db) \<and>
      handleUpdateSection newDate db args
        = (ProjectNameNotFound (requested (arg_project_name args)), db)) \<and>
   (\<forall>p. findProjectByNameExact db (requested (arg_project_name args)) = Some p \<longrightarrow>
      (truthy (arg_stage_name args) \<longrightarrow>
       1 < length (filter (\<lambda>s. stage_name s = requested (arg_stage_name args) \<and>
                                 stage_project_id s = project_id p) (stages db)) \<longrightarrow>
         handleUpdateObject newDate db args
           = (StageNameNotFoundIn (String (arg_stage_name args))
                (requested (arg_project_name args)), db)) \<and>
      (\<not> truthy (arg_stage_name args) \<longrightarrow>
       1 < length (filter (\<lambda>ob. object_name ob = requested (arg_current_name args) \<and>
                                  object_project_id ob = project_id p) (objects db)) \<longrightarrow>
         handleUpdateObject newDate db args
           = (ObjectNotFoundIn (requested (arg_current_name args))
                (requested (arg_project_name args)), db)) \<and>
      (\<forall>s. truthy (arg_stage_name args) \<longrightarrow>
         findStageByNameExact db (requested (arg_stage_name args)) (project_id p) = Some s \<longrightarrow>
         1 < length (filter (\<lambda>ob. object_name ob = requested (arg_current_name args) \<and>
                                    object_project_id ob = project_id p \<and>
                                    object_stage_id ob = stage_id s) (objects db)) \<longrightarrow>
           handleUpdateObject newDate db args
             = (ObjectNotFoundIn (requested (arg_current_name args))
                  (requested (arg_project_name args)), db)) \<and>
      (truthy (arg_object_name args) \<longrightarrow>
       1 < length (filter (\<lambda>ob. object_name ob = requested (arg_object_name args) \<and>
                                  object_project_id ob = project_id p) (objects db)) \<longrightarrow>
         handleUpdateSection newDate db args
           = (ObjectNotFoundIn (String (arg_object_name args))
                (requested (arg_project_name args)), db))) \<and>
   (\<not> truthy (arg_responsible_name args) \<longrightarrow>
      (\<forall>p q rest. truthy (arg_project_name args) \<longrightarrow>
         searchProjectsByName db (requested (arg_project_name args)) = p # q # rest \<longrightarrow>
         (\<exists>filters. handleSearchSections_filters db args = Inr filters \<and>
                    flt_project_id filters = Some (project_id p))) \<and>
      (\<forall>ob ob' rest. truthy (arg_object_name args) \<longrightarrow>
         searchObjectsByName db (requested (arg_object_name args)) None = ob # ob' # rest \<longrightarrow>
         (\<exists>filters. handleSearchSections_filters db args = Inr filters \<and>
                    flt_object_id filters = Some (object_id ob))))"
  by (rule conjI [OF ambiguous_project conjI [OF ambiguous_stage conjI [OF ambiguous_object_in_stage conjI [OF ambiguous_object_of_section conjI [OF ambiguous_project_update conjI [OF ambiguous_update ambiguous_section_filter]]]]]])

theorem ambiguous_reference_reply_witness:
  "handleCreateObject iso_date twin_store block_in_tower
     = (SeveralProjectsUseSearch ''Tower A'', twin_store) \<and>
   handleSearchObjects_resolve twin_store block_in_tower = Inl (SeveralProjects ''Tower A'') \<and>
   handleCreateObject iso_date twin_stage_store block_in_tower
     = (SeveralStagesIn ''Tower A'' ''Foundation'', twin_stage_store) \<and>
   handleSearchObjects_resolve twin_stage_store block_in_tower
     = Inl (SeveralStagesInProject ''Foundation'') \<and>
   handleCreateObject iso_date twin_blocks_store block_in_tower
     = (SeveralObjectsInStage ''Foundation'' ''Block 1'', twin_blocks_store) \<and>
   handleCreateSection iso_date two_blocks_store rebar_again
     = (SeveralObjectsUseSearch ''Block 1'', two_blocks_store) \<and>
   handleUpdateObject iso_date twin_store rename_block_same
     = (ProjectNameNotFound ''Tower A'', twin_store) \<and>
   handleUpdateSection iso_date twin_store rename_rebar_same
     = (ProjectNameNotFound ''Tower A'', twin_store) \<and>
   handleUpdateObject iso_date twin_stage_store block_of_foundation
     = (StageNameNotFoundIn ''Foundation'' ''Tower A'', twin_stage_store) \<and>
   map project_id (searchProjectsByName twin_store ''Tower A'') = [1, 8] \<and>
   (\<exists>filters. handleSearchSections_filters twin_store sections_of_tower_a = Inr filters \<and>
              flt_project_id filters = Some 1)"
proof -
  note t = ambiguous_reference_reply [where newDate = iso_date]
  have args: "requested (arg_project_name block_in_tower) = ''Tower A''"
    "requested (arg_stage_name block_in_tower) = ''Foundation''"
    "requested (arg_object_name block_in_tower) = ''Block 1''"
    "String (arg_project_name block_in_tower) = ''Tower A''"
    "String (arg_stage_name block_in_tower) = ''Foundation''"
    "truthy (arg_project_name block_in_tower)"
    "truthy (arg_stage_name block_in_tower)"
    "requested (arg_object_name rebar_again) = ''Block 1''"
    by (simp_all add: requested_def block_in_tower_def rebar_again_def no_args_def String_def
          truthy_def trim_Tower trim_Foundation trim_Block)
  have p: "map_of (faults twin_store) ''validateUniqueProjectByName'' = None"
    "1 < length (filter (\<lambda>p. project_name p = ''Tower A'') (projects twin_store))"
    by (simp_all add: twin_store_def tower_defs)
  from t [where db = twin_store and args = block_in_tower] p args
  have 1: "handleCreateObject iso_date twin_store block_in_tower
             = (SeveralProjectsUseSearch ''Tower A'', twin_store)"
    "handleSearchObjects_resolve twin_store block_in_tower = Inl (SeveralProjects ''Tower A'')"
    by simp_all
  have s: "map_of (faults twin_stage_store) ''validateUniqueStageByName'' = None"
    "validateUniqueProjectByName twin_stage_store ''Tower A'' = Found tower_project"
    "1 < length (filter (\<lambda>s. stage_name s = ''Foundation'' \<and>
                                stage_project_id s = project_id tower_project)
                   (stages twin_stage_store))"
    "project_name tower_project = ''Tower A''"
    by (simp_all add: twin_stage_store_def tower_defs validateUniqueProjectByName_def
          respond_def classify_def)
  from t [where db = twin_stage_store and args = block_in_tower] s args
  have 2: "handleCreateObject iso_date twin_stage_store block_in_tower
             = (SeveralStagesIn ''Tower A'' ''Foundation'', twin_stage_store)"
    "handleSearchObjects_resolve twin_stage_store block_in_tower
             = Inl (SeveralStagesInProject ''Foundation'')"
    by simp_all
  have b: "map_of (faults twin_blocks_store) ''validateUniqueObjectByName'' = None"
    "validateUniqueProjectByName twin_blocks_store ''Tower A'' = Found tower_project"
    "validateUniqueStageByName twin_blocks_store ''Foundation'' (project_id tower_project)
       = Found foundation_stage"
    "1 < length (filter (\<lambda>ob. object_name ob = ''Block 1'' \<and>
                                 object_stage_id ob = stage_id foundation_stage)
                   (objects twin_blocks_store))"
    "stage_name foundation_stage = ''Foundation''"
    by (simp_all add: twin_blocks_store_def tower_defs validateUniqueProjectByName_def
          validateUniqueStageByName_def respond_def classify_def)
  from t [where db = twin_blocks_store and args = block_in_tower] b args
  have 3: "handleCreateObject iso_date twin_blocks_store block_in_tower
             = (SeveralObjectsInStage ''Foundation'' ''Block 1'', twin_blocks_store)"
    by simp
  have ob: "map_of (faults two_blocks_store) ''validateUniqueObjectByName'' = None"
    "1 < length (filter (\<lambda>ob. object_name ob = ''Block 1'') (objects two_blocks_store))"
    by (simp_all add: two_blocks_store_def tower_defs)
  from t [where db = two_blocks_store and args = rebar_again] ob args
  have 4: "handleCreateSection iso_date two_blocks_store rebar_again
             = (SeveralObjectsUseSearch ''Block 1'', two_blocks_store)"
    by simp
  have u: "requested (arg_project_name rename_block_same) = ''Tower A''"
    "requested (arg_project_name rename_rebar_same) = ''Tower A''"
    by (simp_all add: requested_def rename_block_same_def rename_rebar_same_def no_args_def
          String_def trim_Tower)
  from t [where db = twin_store and args = rename_block_same] p u
  have 5: "handleUpdateObject iso_date twin_store rename_block_same
             = (ProjectNameNotFound ''Tower A'', twin_store)"
    by simp
  from t [where db = twin_store and args = rename_rebar_same] p u
  have 6: "handleUpdateSection iso_date twin_store rename_rebar_same
             = (ProjectNameNotFound ''Tower A'', twin_store)"
    by simp
  have f: "requested (arg_project_name block_of_foundation) = ''Tower A''"
    "requested (arg_stage_name block_of_foundation) = ''Foundation''"
    "String (arg_stage_name block_of_foundation) = ''Foundation''"
    "truthy (arg_stage_name block_of_foundation)"
    by (simp_all add: requested_def block_of_foundation_def no_args_def String_def truthy_def
          trim_Tower trim_Foundation)
  have fp: "findProjectByNameExact twin_stage_store ''Tower A'' = Some tower_project"
    by (simp add: findProjectByNameExact_def trim_Tower respond_def single_def orNull_def
          twin_stage_store_def tower_defs)
  from t [where db = twin_stage_store and args = block_of_foundation] f fp s(3)
  have 7: "handleUpdateObject iso_date twin_stage_store block_of_foundation
             = (StageNameNotFoundIn ''Foundation'' ''Tower A'', twin_stage_store)"
    by simp
  have g: "requested (arg_project_name sections_of_tower_a) = ''Tower A''"
    "truthy (arg_project_name sections_of_tower_a)"
    "\<not> truthy (arg_responsible_name sections_of_tower_a)"
    by (simp_all add: requested_def sections_of_tower_a_def no_args_def String_def truthy_def
          trim_Tower)
  have sp: "searchProjectsByName twin_store ''Tower A''
              = [tower_project\<lparr> project_description := Some ''north site'' \<rparr>,
                 tower_project\<lparr> project_id := 8, project_description := Some ''south site'' \<rparr>]"
    by (simp add: searchProjectsByName_def respond_def twin_store_def tower_defs)
  have ids: "map project_id (searchProjectsByName twin_store ''Tower A'') = [1, 8]"
    unfolding sp by (simp add: tower_project_def)
  from t [where db = twin_store and args = sections_of_tower_a] g sp
  have 8: "\<exists>filters. handleSearchSections_filters twin_store sections_of_tower_a = Inr filters \<and>
              flt_project_id filters = Some 1"
    by (simp add: tower_project_def)
  from 1 2 3 4 5 6 7 ids 8 show ?thesis by simp
qed

text \<open>
  C2 as stated fails: two projects are named Tower A and differ in their descriptions
  and identifiers, the lookup reports several matches, and the reply lists no candidate.
\<close>

theorem ambiguous_project_not_enumerated:
  "map project_name (projects twin_store) = [''Tower A'', ''Tower A''] \<and>
   map project_id (projects twin_store) = [1, 8] \<and>
   validateUniqueProjectByName twin_store ''Tower A'' = MultipleFound \<and>
   (\<forall>newDate. fst (handleCreateObject newDate twin_store block_in_tower)
                = SeveralProjectsUseSearch ''Tower A'') \<and>
   (\<forall>newDate. listed_candidates (fst (handleCreateObject newDate twin_store block_in_tower)) = [])"
  by (simp add: handleCreateObject_def block_in_tower_def no_args_def String_def trim_Tower
        validateUniqueProjectByName_def respond_def classify_def twin_store_def tower_defs
        Let_def)
end
